theory Spec2Isabelle
  imports Main "HOL-Library.Word"
begin

unbundle bit_operations_syntax

section \<open>Conventions of the embedding\<close>

text \<open>
  The development embeds \<^verbatim>\<open>Sources/lzlib/lzlib.c\<close>.
  \<^item> \<^verbatim>\<open>uint8_t\<close>, \<^verbatim>\<open>uint32_t\<close>/\<^verbatim>\<open>unsigned\<close> and
    \<^verbatim>\<open>uint64_t\<close>/\<^verbatim>\<open>unsigned long long\<close> are \<open>8 word\<close>, \<open>32 word\<close> and \<open>64 word\<close>;
    their arithmetic wraps as in C.
  \<^item> \<^verbatim>\<open>Bit_model\<close> (a C \<^verbatim>\<open>int\<close>) is a \<open>32 word\<close> read in two's complement: \<^verbatim>\<open>>>\<close> on it is
    the arithmetic shift \<open>signed_drop_bit\<close>.
  \<^item> The \<^verbatim>\<open>int\<close> arguments of the public functions are \<open>32 word\<close> compared through \<open>sint\<close>.
    Small \<^verbatim>\<open>int\<close> locals that the code keeps non-negative (coder state, position state,
    lengths, loop counters) are \<open>nat\<close>; the \<^verbatim>\<open>int\<close> fields of the match finder are \<open>int\<close>.
  \<^item> A struct is a record; its fields carry a short prefix of the struct's name
    (\<open>cb_get\<close> is \<^verbatim>\<open>Circular_buffer.get\<close>). A byte array reached through a pointer is a
    function from index to byte; an array of bit models is a function from index to
    \<open>Bit_model\<close>. An index outside the C array is undefined behaviour in C and is not
    modelled.
  \<^item> A function that mutates its argument returns the new value; a pointer shared by two
    structs (\<^verbatim>\<open>LZ_decoder.rdec\<close> and \<^verbatim>\<open>LZ_Decoder.rdec\<close>) is one value passed
    through.
\<close>

section \<open>Coder states and constants\<close>

type_synonym State = nat

definition states :: nat where "states = 12"

definition St_is_char :: "State \<Rightarrow> bool" where
  "St_is_char st = (st < 7)"

definition St_set_char :: "State \<Rightarrow> State" where
  "St_set_char st = [0, 0, 0, 0, 1, 2, 3, 4, 5, 6, 4, 5] ! st"

definition St_set_char_rep :: State where
  "St_set_char_rep = 8"

definition St_set_match :: "State \<Rightarrow> State" where
  "St_set_match st = (if st < 7 then 7 else 10)"

definition St_set_rep :: "State \<Rightarrow> State" where
  "St_set_rep st = (if st < 7 then 8 else 11)"

definition St_set_short_rep :: "State \<Rightarrow> State" where
  "St_set_short_rep st = (if st < 7 then 9 else 11)"

definition min_dictionary_bits :: nat where "min_dictionary_bits = 12"
definition min_dictionary_size :: "32 word" where "min_dictionary_size = push_bit min_dictionary_bits 1"
definition max_dictionary_bits :: nat where "max_dictionary_bits = 29"
definition max_dictionary_size :: "32 word" where "max_dictionary_size = push_bit max_dictionary_bits 1"
definition literal_context_bits :: nat where "literal_context_bits = 3"
definition pos_state_bits :: nat where "pos_state_bits = 2"
definition pos_states :: nat where "pos_states = 2 ^ pos_state_bits"
definition pos_state_mask :: nat where "pos_state_mask = pos_states - 1"

definition len_states :: nat where "len_states = 4"
definition dis_slot_bits :: nat where "dis_slot_bits = 6"
definition start_dis_model :: nat where "start_dis_model = 4"
definition end_dis_model :: nat where "end_dis_model = 14"
definition modeled_distances :: nat where "modeled_distances = 2 ^ (end_dis_model div 2)"
definition dis_align_bits :: nat where "dis_align_bits = 4"
definition dis_align_size :: nat where "dis_align_size = 2 ^ dis_align_bits"

definition len_low_bits :: nat where "len_low_bits = 3"
definition len_mid_bits :: nat where "len_mid_bits = 3"
definition len_high_bits :: nat where "len_high_bits = 8"
definition len_low_symbols :: nat where "len_low_symbols = 2 ^ len_low_bits"
definition len_mid_symbols :: nat where "len_mid_symbols = 2 ^ len_mid_bits"
definition len_high_symbols :: nat where "len_high_symbols = 2 ^ len_high_bits"
definition max_len_symbols :: nat where
  "max_len_symbols = len_low_symbols + len_mid_symbols + len_high_symbols"

definition min_match_len :: nat where "min_match_len = 2"
definition max_match_len :: nat where "max_match_len = min_match_len + max_len_symbols - 1"
definition min_match_len_limit :: nat where "min_match_len_limit = 5"

definition get_len_state :: "nat \<Rightarrow> nat" where
  "get_len_state len = (if len - min_match_len \<le> len_states - 1 then len - min_match_len else len_states - 1)"

definition get_lit_state :: "8 word \<Rightarrow> nat" where
  "get_lit_state prev_byte = unat (drop_bit (8 - literal_context_bits) prev_byte)"

section \<open>Bit models\<close>

type_synonym Bit_model = "32 word"

definition bit_model_move_bits :: nat where "bit_model_move_bits = 5"
definition bit_model_total_bits :: nat where "bit_model_total_bits = 11"
definition bit_model_total :: "32 word" where "bit_model_total = push_bit bit_model_total_bits 1"

text \<open>\<^verbatim>\<open>Bm_init\<close> stores \<^verbatim>\<open>bit_model_total / 2\<close>; \<^verbatim>\<open>Bm_array_init\<close> stores it in every
  element.\<close>

definition Bm_init :: Bit_model where
  "Bm_init = bit_model_total div 2"

definition Bm_array_init :: "nat \<Rightarrow> Bit_model" where
  "Bm_array_init = (\<lambda>i. Bm_init)"

record Len_model =
  lm_choice1 :: Bit_model
  lm_choice2 :: Bit_model
  lm_bm_low :: "nat \<Rightarrow> nat \<Rightarrow> Bit_model"
  lm_bm_mid :: "nat \<Rightarrow> nat \<Rightarrow> Bit_model"
  lm_bm_high :: "nat \<Rightarrow> Bit_model"

definition Lm_init :: Len_model where
  "Lm_init = \<lparr> lm_choice1 = Bm_init, lm_choice2 = Bm_init,
               lm_bm_low = (\<lambda>ps. Bm_array_init), lm_bm_mid = (\<lambda>ps. Bm_array_init),
               lm_bm_high = Bm_array_init \<rparr>"

section \<open>CRC32\<close>

definition crc32 :: "32 word list" where
  "crc32 =
  [0x00000000, 0x77073096, 0xEE0E612C, 0x990951BA, 0x076DC419, 0x706AF48F,
   0xE963A535, 0x9E6495A3, 0x0EDB8832, 0x79DCB8A4, 0xE0D5E91E, 0x97D2D988,
   0x09B64C2B, 0x7EB17CBD, 0xE7B82D07, 0x90BF1D91, 0x1DB71064, 0x6AB020F2,
   0xF3B97148, 0x84BE41DE, 0x1ADAD47D, 0x6DDDE4EB, 0xF4D4B551, 0x83D385C7,
   0x136C9856, 0x646BA8C0, 0xFD62F97A, 0x8A65C9EC, 0x14015C4F, 0x63066CD9,
   0xFA0F3D63, 0x8D080DF5, 0x3B6E20C8, 0x4C69105E, 0xD56041E4, 0xA2677172,
   0x3C03E4D1, 0x4B04D447, 0xD20D85FD, 0xA50AB56B, 0x35B5A8FA, 0x42B2986C,
   0xDBBBC9D6, 0xACBCF940, 0x32D86CE3, 0x45DF5C75, 0xDCD60DCF, 0xABD13D59,
   0x26D930AC, 0x51DE003A, 0xC8D75180, 0xBFD06116, 0x21B4F4B5, 0x56B3C423,
   0xCFBA9599, 0xB8BDA50F, 0x2802B89E, 0x5F058808, 0xC60CD9B2, 0xB10BE924,
   0x2F6F7C87, 0x58684C11, 0xC1611DAB, 0xB6662D3D, 0x76DC4190, 0x01DB7106,
   0x98D220BC, 0xEFD5102A, 0x71B18589, 0x06B6B51F, 0x9FBFE4A5, 0xE8B8D433,
   0x7807C9A2, 0x0F00F934, 0x9609A88E, 0xE10E9818, 0x7F6A0DBB, 0x086D3D2D,
   0x91646C97, 0xE6635C01, 0x6B6B51F4, 0x1C6C6162, 0x856530D8, 0xF262004E,
   0x6C0695ED, 0x1B01A57B, 0x8208F4C1, 0xF50FC457, 0x65B0D9C6, 0x12B7E950,
   0x8BBEB8EA, 0xFCB9887C, 0x62DD1DDF, 0x15DA2D49, 0x8CD37CF3, 0xFBD44C65,
   0x4DB26158, 0x3AB551CE, 0xA3BC0074, 0xD4BB30E2, 0x4ADFA541, 0x3DD895D7,
   0xA4D1C46D, 0xD3D6F4FB, 0x4369E96A, 0x346ED9FC, 0xAD678846, 0xDA60B8D0,
   0x44042D73, 0x33031DE5, 0xAA0A4C5F, 0xDD0D7CC9, 0x5005713C, 0x270241AA,
   0xBE0B1010, 0xC90C2086, 0x5768B525, 0x206F85B3, 0xB966D409, 0xCE61E49F,
   0x5EDEF90E, 0x29D9C998, 0xB0D09822, 0xC7D7A8B4, 0x59B33D17, 0x2EB40D81,
   0xB7BD5C3B, 0xC0BA6CAD, 0xEDB88320, 0x9ABFB3B6, 0x03B6E20C, 0x74B1D29A,
   0xEAD54739, 0x9DD277AF, 0x04DB2615, 0x73DC1683, 0xE3630B12, 0x94643B84,
   0x0D6D6A3E, 0x7A6A5AA8, 0xE40ECF0B, 0x9309FF9D, 0x0A00AE27, 0x7D079EB1,
   0xF00F9344, 0x8708A3D2, 0x1E01F268, 0x6906C2FE, 0xF762575D, 0x806567CB,
   0x196C3671, 0x6E6B06E7, 0xFED41B76, 0x89D32BE0, 0x10DA7A5A, 0x67DD4ACC,
   0xF9B9DF6F, 0x8EBEEFF9, 0x17B7BE43, 0x60B08ED5, 0xD6D6A3E8, 0xA1D1937E,
   0x38D8C2C4, 0x4FDFF252, 0xD1BB67F1, 0xA6BC5767, 0x3FB506DD, 0x48B2364B,
   0xD80D2BDA, 0xAF0A1B4C, 0x36034AF6, 0x41047A60, 0xDF60EFC3, 0xA867DF55,
   0x316E8EEF, 0x4669BE79, 0xCB61B38C, 0xBC66831A, 0x256FD2A0, 0x5268E236,
   0xCC0C7795, 0xBB0B4703, 0x220216B9, 0x5505262F, 0xC5BA3BBE, 0xB2BD0B28,
   0x2BB45A92, 0x5CB36A04, 0xC2D7FFA7, 0xB5D0CF31, 0x2CD99E8B, 0x5BDEAE1D,
   0x9B64C2B0, 0xEC63F226, 0x756AA39C, 0x026D930A, 0x9C0906A9, 0xEB0E363F,
   0x72076785, 0x05005713, 0x95BF4A82, 0xE2B87A14, 0x7BB12BAE, 0x0CB61B38,
   0x92D28E9B, 0xE5D5BE0D, 0x7CDCEFB7, 0x0BDBDF21, 0x86D3D2D4, 0xF1D4E242,
   0x68DDB3F8, 0x1FDA836E, 0x81BE16CD, 0xF6B9265B, 0x6FB077E1, 0x18B74777,
   0x88085AE6, 0xFF0F6A70, 0x66063BCA, 0x11010B5C, 0x8F659EFF, 0xF862AE69,
   0x616BFFD3, 0x166CCF45, 0xA00AE278, 0xD70DD2EE, 0x4E048354, 0x3903B3C2,
   0xA7672661, 0xD06016F7, 0x4969474D, 0x3E6E77DB, 0xAED16A4A, 0xD9D65ADC,
   0x40DF0B66, 0x37D83BF0, 0xA9BCAE53, 0xDEBB9EC5, 0x47B2CF7F, 0x30B5FFE9,
   0xBDBDF21C, 0xCABAC28A, 0x53B39330, 0x24B4A3A6, 0xBAD03605, 0xCDD70693,
   0x54DE5729, 0x23D967BF, 0xB3667A2E, 0xC4614AB8, 0x5D681B02, 0x2A6F2B94,
   0xB40BBE37, 0xC30C8EA1, 0x5A05DF1B, 0x2D02EF8D]"

definition CRC32_update_byte :: "32 word \<Rightarrow> 8 word \<Rightarrow> 32 word" where
  "CRC32_update_byte crc byte = (crc32 ! unat ((crc XOR ucast byte) AND 0xFF)) XOR drop_bit 8 crc"

text \<open>\<^verbatim>\<open>CRC32_update_buf\<close> runs the same update over \<^verbatim>\<open>buffer[0..size)\<close>; the loop counter
  \<open>i\<close> runs upwards.\<close>

fun CRC32_update_buf_loop :: "(nat \<Rightarrow> 8 word) \<Rightarrow> nat \<Rightarrow> nat \<Rightarrow> 32 word \<Rightarrow> 32 word" where
  "CRC32_update_buf_loop buf i 0 c = c"
| "CRC32_update_buf_loop buf i (Suc n) c =
     CRC32_update_buf_loop buf (Suc i) n ((crc32 ! unat ((c XOR ucast (buf i)) AND 0xFF)) XOR drop_bit 8 c)"

definition CRC32_update_buf :: "32 word \<Rightarrow> (nat \<Rightarrow> 8 word) \<Rightarrow> nat \<Rightarrow> 32 word" where
  "CRC32_update_buf crc buf sz = CRC32_update_buf_loop buf 0 sz crc"

section \<open>Member header and trailer\<close>

definition isvalid_ds :: "32 word \<Rightarrow> bool" where
  "isvalid_ds dictionary_size =
     (dictionary_size \<ge> min_dictionary_size \<and> dictionary_size \<le> max_dictionary_size)"

function real_bits_loop :: "32 word \<Rightarrow> nat \<Rightarrow> nat" where
  "real_bits_loop v bits = (if v > 0 then real_bits_loop (drop_bit 1 v) (Suc bits) else bits)"
  by pat_completeness auto
termination
proof (relation "measure (\<lambda>(v, bits). unat v)")
  show "wf (measure (\<lambda>(v, bits). unat v))" by simp
next
  fix v :: "32 word" and bits :: nat
  assume "0 < v"
  then have "0 < unat v" by (simp add: word_less_nat_alt)
  then have "unat v div 2 < unat v" by simp
  then show "((drop_bit 1 v, Suc bits), (v, bits)) \<in> measure (\<lambda>(v, bits). unat v)"
    by (simp add: drop_bit_eq_div unat_div)
qed

definition real_bits :: "32 word \<Rightarrow> nat" where
  "real_bits v = real_bits_loop v 0"

definition lzip_magic :: "8 word list" where
  "lzip_magic = [0x4C, 0x5A, 0x49, 0x50]"

type_synonym Lzip_header = "8 word list"

definition Lh_size :: nat where "Lh_size = 6"

definition Lh_set_magic :: "Lzip_header \<Rightarrow> Lzip_header" where
  "Lh_set_magic data = (lzip_magic @ drop 4 data)[4 := 1]"

definition Lh_verify_magic :: "Lzip_header \<Rightarrow> bool" where
  "Lh_verify_magic data = (take 4 data = lzip_magic)"

fun Lh_verify_prefix_loop :: "Lzip_header \<Rightarrow> nat \<Rightarrow> nat \<Rightarrow> nat \<Rightarrow> bool" where
  "Lh_verify_prefix_loop data sz i 0 = (sz > 0)"
| "Lh_verify_prefix_loop data sz i (Suc n) =
     (if i < sz \<and> i < 4
      then (if data ! i \<noteq> lzip_magic ! i then False else Lh_verify_prefix_loop data sz (Suc i) n)
      else (sz > 0))"

definition Lh_verify_prefix :: "Lzip_header \<Rightarrow> nat \<Rightarrow> bool" where
  "Lh_verify_prefix data sz = Lh_verify_prefix_loop data sz 0 4"

definition Lh_verify_corrupt :: "Lzip_header \<Rightarrow> bool" where
  "Lh_verify_corrupt data =
     (let matches = length (filter (\<lambda>i. data ! i = lzip_magic ! i) [0..<4])
      in matches > 1 \<and> matches < 4)"

definition Lh_version :: "Lzip_header \<Rightarrow> 8 word" where
  "Lh_version data = data ! 4"

definition Lh_verify_version :: "Lzip_header \<Rightarrow> bool" where
  "Lh_verify_version data = (data ! 4 = 1)"

definition Lh_get_dictionary_size :: "Lzip_header \<Rightarrow> 32 word" where
  "Lh_get_dictionary_size data =
     (let sz = push_bit (unat (data ! 5 AND 0x1F)) (1 :: 32 word)
      in if sz > min_dictionary_size
         then sz - (sz div 16) * (ucast (drop_bit 5 (data ! 5)) AND 7)
         else sz)"

text \<open>The loop of \<^verbatim>\<open>Lh_set_dictionary_size\<close>: \<open>i\<close> counts down from 7 to 1 and the first
  \<open>i\<close> with \<^verbatim>\<open>base_size - i * fraction >= sz\<close> is or-ed into the high three bits.\<close>

fun Lh_set_dictionary_size_loop :: "nat \<Rightarrow> 32 word \<Rightarrow> 32 word \<Rightarrow> 32 word \<Rightarrow> 8 word \<Rightarrow> 8 word" where
  "Lh_set_dictionary_size_loop 0 base_size fraction sz d5 = d5"
| "Lh_set_dictionary_size_loop (Suc n) base_size fraction sz d5 =
     (if base_size - (of_nat (Suc n) * fraction) \<ge> sz
      then d5 OR push_bit 5 (of_nat (Suc n))
      else Lh_set_dictionary_size_loop n base_size fraction sz d5)"

definition Lh_set_dictionary_size :: "Lzip_header \<Rightarrow> 32 word \<Rightarrow> bool \<times> Lzip_header" where
  "Lh_set_dictionary_size data sz =
     (if \<not> isvalid_ds sz then (False, data)
      else
        let d5 = (of_nat (real_bits (sz - 1)) :: 8 word) in
        if sz > min_dictionary_size
        then
          let base_size = push_bit (unat d5) (1 :: 32 word);
              fraction = base_size div 16
          in (True, data[5 := Lh_set_dictionary_size_loop 7 base_size fraction sz d5])
        else (True, data[5 := d5]))"

definition Lh_verify :: "Lzip_header \<Rightarrow> bool" where
  "Lh_verify data =
     (Lh_verify_magic data \<and> Lh_verify_version data \<and> isvalid_ds (Lh_get_dictionary_size data))"

type_synonym Lzip_trailer = "8 word list"

definition Lt_size :: nat where "Lt_size = 20"

text \<open>The little-endian readers run \<open>i\<close> downwards: \<^verbatim>\<open>tmp <<= 8; tmp += data[i]\<close>.\<close>

fun Lt_get_loop32 :: "Lzip_trailer \<Rightarrow> nat \<Rightarrow> nat \<Rightarrow> 32 word \<Rightarrow> 32 word" where
  "Lt_get_loop32 data lo 0 tmp = tmp"
| "Lt_get_loop32 data lo (Suc n) tmp = Lt_get_loop32 data lo n (push_bit 8 tmp + ucast (data ! (lo + n)))"

fun Lt_get_loop64 :: "Lzip_trailer \<Rightarrow> nat \<Rightarrow> nat \<Rightarrow> 64 word \<Rightarrow> 64 word" where
  "Lt_get_loop64 data lo 0 tmp = tmp"
| "Lt_get_loop64 data lo (Suc n) tmp = Lt_get_loop64 data lo n (push_bit 8 tmp + ucast (data ! (lo + n)))"

definition Lt_get_data_crc :: "Lzip_trailer \<Rightarrow> 32 word" where
  "Lt_get_data_crc data = Lt_get_loop32 data 0 4 0"

definition Lt_get_data_size :: "Lzip_trailer \<Rightarrow> 64 word" where
  "Lt_get_data_size data = Lt_get_loop64 data 4 8 0"

definition Lt_get_member_size :: "Lzip_trailer \<Rightarrow> 64 word" where
  "Lt_get_member_size data = Lt_get_loop64 data 12 8 0"

text \<open>The writers run \<open>i\<close> upwards: \<^verbatim>\<open>data[i] = (uint8_t)v; v >>= 8\<close>.\<close>

fun Lt_set_loop32 :: "nat \<Rightarrow> nat \<Rightarrow> Lzip_trailer \<Rightarrow> 32 word \<Rightarrow> Lzip_trailer" where
  "Lt_set_loop32 i 0 data v = data"
| "Lt_set_loop32 i (Suc n) data v = Lt_set_loop32 (Suc i) n (data[i := ucast v]) (drop_bit 8 v)"

fun Lt_set_loop64 :: "nat \<Rightarrow> nat \<Rightarrow> Lzip_trailer \<Rightarrow> 64 word \<Rightarrow> Lzip_trailer" where
  "Lt_set_loop64 i 0 data v = data"
| "Lt_set_loop64 i (Suc n) data v = Lt_set_loop64 (Suc i) n (data[i := ucast v]) (drop_bit 8 v)"

definition Lt_set_data_crc :: "Lzip_trailer \<Rightarrow> 32 word \<Rightarrow> Lzip_trailer" where
  "Lt_set_data_crc data crc = Lt_set_loop32 0 4 data crc"

definition Lt_set_data_size :: "Lzip_trailer \<Rightarrow> 64 word \<Rightarrow> Lzip_trailer" where
  "Lt_set_data_size data sz = Lt_set_loop64 4 8 data sz"

definition Lt_set_member_size :: "Lzip_trailer \<Rightarrow> 64 word \<Rightarrow> Lzip_trailer" where
  "Lt_set_member_size data sz = Lt_set_loop64 12 8 data sz"

section \<open>Circular buffer\<close>

text \<open>\<^verbatim>\<open>memcpy (dst + d, src, n)\<close> on byte arrays that are functions from index to byte.\<close>

definition memcpy :: "(nat \<Rightarrow> 8 word) \<Rightarrow> nat \<Rightarrow> (nat \<Rightarrow> 8 word) \<Rightarrow> nat \<Rightarrow> (nat \<Rightarrow> 8 word)" where
  "memcpy dst d src n = (\<lambda>k. if d \<le> k \<and> k < d + n then src (k - d) else dst k)"

record Circular_buffer =
  cb_buffer :: "nat \<Rightarrow> 8 word"
  cb_buffer_size :: "32 word"
  cb_get :: "32 word"
  cb_put :: "32 word"

text \<open>\<^verbatim>\<open>Cb_init\<close>: \<open>mem_ok\<close> is whether \<^verbatim>\<open>malloc\<close> succeeds; the fresh block is modelled
  zero-filled.\<close>

definition Cb_init :: "bool \<Rightarrow> 32 word \<Rightarrow> bool \<times> Circular_buffer" where
  "Cb_init mem_ok buf_size =
     (let bs = buf_size + 1
      in (bs > 1 \<and> mem_ok,
          \<lparr> cb_buffer = (\<lambda>k. 0), cb_buffer_size = bs, cb_get = 0, cb_put = 0 \<rparr>))"

definition Cb_reset :: "Circular_buffer \<Rightarrow> Circular_buffer" where
  "Cb_reset cb = cb\<lparr> cb_get := 0, cb_put := 0 \<rparr>"

definition Cb_empty :: "Circular_buffer \<Rightarrow> bool" where
  "Cb_empty cb = (cb_get cb = cb_put cb)"

definition Cb_used_bytes :: "Circular_buffer \<Rightarrow> 32 word" where
  "Cb_used_bytes cb =
     (if cb_get cb \<le> cb_put cb then 0 else cb_buffer_size cb) + cb_put cb - cb_get cb"

definition Cb_free_bytes :: "Circular_buffer \<Rightarrow> 32 word" where
  "Cb_free_bytes cb =
     (if cb_get cb \<le> cb_put cb then cb_buffer_size cb else 0) - cb_put cb + cb_get cb - 1"

definition Cb_get_byte :: "Circular_buffer \<Rightarrow> 8 word \<times> Circular_buffer" where
  "Cb_get_byte cb =
     (let b = cb_buffer cb (unat (cb_get cb));
          g = cb_get cb + 1
      in (b, cb\<lparr> cb_get := (if g \<ge> cb_buffer_size cb then 0 else g) \<rparr>))"

definition Cb_put_byte :: "Circular_buffer \<Rightarrow> 8 word \<Rightarrow> Circular_buffer" where
  "Cb_put_byte cb b =
     (let p = cb_put cb + 1
      in cb\<lparr> cb_buffer := (cb_buffer cb)(unat (cb_put cb) := b),
              cb_put := (if p \<ge> cb_buffer_size cb then 0 else p) \<rparr>)"

definition Cb_unread_data :: "Circular_buffer \<Rightarrow> 32 word \<Rightarrow> bool \<times> Circular_buffer" where
  "Cb_unread_data cb sz =
     (if sz > Cb_free_bytes cb then (False, cb)
      else if cb_get cb \<ge> sz then (True, cb\<lparr> cb_get := cb_get cb - sz \<rparr>)
      else (True, cb\<lparr> cb_get := cb_buffer_size cb - sz + cb_get cb \<rparr>))"

text \<open>\<^verbatim>\<open>Cb_read_data\<close> returns the count, the bytes copied to \<^verbatim>\<open>out_buffer\<close> and the new
  buffer: at most two contiguous copies, split at the wrap point.\<close>

definition Cb_read_data :: "Circular_buffer \<Rightarrow> 32 word \<Rightarrow> 32 word \<times> 8 word list \<times> Circular_buffer" where
  "Cb_read_data cb out_size =
     (if out_size = 0 then (0, [], cb)
      else
        let (size1, out1, cb1) =
              (if cb_get cb > cb_put cb
               then
                 let sz = min (cb_buffer_size cb - cb_get cb) out_size
                 in if sz > 0
                    then
                      let g = cb_get cb + sz
                      in (sz, map (\<lambda>k. cb_buffer cb (unat (cb_get cb) + k)) [0..<unat sz],
                          cb\<lparr> cb_get := (if g \<ge> cb_buffer_size cb then 0 else g) \<rparr>)
                    else (sz, [], cb)
               else (0, [], cb))
        in if cb_get cb1 < cb_put cb1
           then
             let size2 = min (cb_put cb1 - cb_get cb1) (out_size - size1)
             in if size2 > 0
                then (size1 + size2,
                      out1 @ map (\<lambda>k. cb_buffer cb1 (unat (cb_get cb1) + k)) [0..<unat size2],
                      cb1\<lparr> cb_get := cb_get cb1 + size2 \<rparr>)
                else (size1, out1, cb1)
           else (size1, out1, cb1))"

text \<open>\<^verbatim>\<open>Cb_write_data\<close>: the argument pair \<^verbatim>\<open>(in_buffer, in_size)\<close> is a byte list whose
  length is \<^verbatim>\<open>in_size\<close>.\<close>

definition Cb_write_data :: "Circular_buffer \<Rightarrow> 8 word list \<Rightarrow> 32 word \<times> Circular_buffer" where
  "Cb_write_data cb in_buffer =
     (let in_size = (of_nat (length in_buffer) :: 32 word)
      in if in_size = 0 then (0, cb)
         else
           let (size1, cb1) =
                 (if cb_put cb \<ge> cb_get cb
                  then
                    let sz = min (cb_buffer_size cb - cb_put cb - of_bool (cb_get cb = 0)) in_size
                    in if sz > 0
                       then
                         let p = cb_put cb + sz
                         in (sz, cb\<lparr> cb_buffer := memcpy (cb_buffer cb) (unat (cb_put cb))
                                                       (\<lambda>k. in_buffer ! k) (unat sz),
                                       cb_put := (if p \<ge> cb_buffer_size cb then 0 else p) \<rparr>)
                       else (sz, cb)
                  else (0, cb))
           in if cb_put cb1 < cb_get cb1
              then
                let size2 = min (cb_get cb1 - cb_put cb1 - 1) (in_size - size1)
                in if size2 > 0
                   then (size1 + size2,
                         cb1\<lparr> cb_buffer := memcpy (cb_buffer cb1) (unat (cb_put cb1))
                                                (\<lambda>k. in_buffer ! (unat size1 + k)) (unat size2),
                               cb_put := cb_put cb1 + size2 \<rparr>)
                   else (size1, cb1)
              else (size1, cb1))"

section \<open>Range decoder\<close>

definition rd_min_available_bytes :: "32 word" where "rd_min_available_bytes = 10"

record Range_decoder =
  rd_cb :: Circular_buffer
  rd_member_position :: "64 word"
  rd_code :: "32 word"
  rd_range :: "32 word"
  rd_at_stream_end :: bool
  rd_reload_pending :: bool

definition Rd_init :: "bool \<Rightarrow> bool \<times> Range_decoder" where
  "Rd_init mem_ok =
     (let (ok, cb) = Cb_init mem_ok (65536 + rd_min_available_bytes)
      in (ok, \<lparr> rd_cb = cb, rd_member_position = 0, rd_code = 0, rd_range = 0xFFFFFFFF,
                rd_at_stream_end = False, rd_reload_pending = False \<rparr>))"

definition Rd_finished :: "Range_decoder \<Rightarrow> bool" where
  "Rd_finished rdec = (rd_at_stream_end rdec \<and> Cb_empty (rd_cb rdec))"

definition Rd_finish :: "Range_decoder \<Rightarrow> Range_decoder" where
  "Rd_finish rdec = rdec\<lparr> rd_at_stream_end := True \<rparr>"

definition Rd_enough_available_bytes :: "Range_decoder \<Rightarrow> bool" where
  "Rd_enough_available_bytes rdec = (Cb_used_bytes (rd_cb rdec) \<ge> rd_min_available_bytes)"

definition Rd_available_bytes :: "Range_decoder \<Rightarrow> 32 word" where
  "Rd_available_bytes rdec = Cb_used_bytes (rd_cb rdec)"

definition Rd_free_bytes :: "Range_decoder \<Rightarrow> 32 word" where
  "Rd_free_bytes rdec = (if rd_at_stream_end rdec then 0 else Cb_free_bytes (rd_cb rdec))"

definition Rd_purge :: "Range_decoder \<Rightarrow> 64 word \<times> Range_decoder" where
  "Rd_purge rdec =
     (rd_member_position rdec + ucast (Cb_used_bytes (rd_cb rdec)),
      rdec\<lparr> rd_cb := Cb_reset (rd_cb rdec), rd_member_position := 0, rd_at_stream_end := True \<rparr>)"

definition Rd_reset :: "Range_decoder \<Rightarrow> Range_decoder" where
  "Rd_reset rdec =
     rdec\<lparr> rd_cb := Cb_reset (rd_cb rdec), rd_member_position := 0, rd_at_stream_end := False \<rparr>"

text \<open>\<^verbatim>\<open>Rd_write_data\<close> takes an \<^verbatim>\<open>int size\<close>; the byte list stands for the pair
  \<^verbatim>\<open>(inbuf, size)\<close>, so \<^verbatim>\<open>size <= 0\<close> is the empty list.\<close>

definition Rd_write_data :: "Range_decoder \<Rightarrow> 8 word list \<Rightarrow> 32 word \<times> Range_decoder" where
  "Rd_write_data rdec inbuf =
     (if rd_at_stream_end rdec \<or> length inbuf = 0 then (0, rdec)
      else let (n, cb) = Cb_write_data (rd_cb rdec) inbuf in (n, rdec\<lparr> rd_cb := cb \<rparr>))"

definition Rd_get_byte :: "Range_decoder \<Rightarrow> 8 word \<times> Range_decoder" where
  "Rd_get_byte rdec =
     (if Rd_finished rdec then (0xFF, rdec)
      else
        let (b, cb) = Cb_get_byte (rd_cb rdec)
        in (b, rdec\<lparr> rd_member_position := rd_member_position rdec + 1, rd_cb := cb \<rparr>))"

text \<open>\<^verbatim>\<open>Rd_read_data\<close> stores the count in an \<^verbatim>\<open>int sz\<close> and adds it when \<^verbatim>\<open>sz > 0\<close>.\<close>

definition Rd_read_data :: "Range_decoder \<Rightarrow> 32 word \<Rightarrow> 32 word \<times> 8 word list \<times> Range_decoder" where
  "Rd_read_data rdec sz0 =
     (let (sz, out, cb) = Cb_read_data (rd_cb rdec) sz0;
          rdec1 = rdec\<lparr> rd_cb := cb \<rparr>
      in if 0 <s sz
         then (sz, out, rdec1\<lparr> rd_member_position := rd_member_position rdec1 + scast sz \<rparr>)
         else (sz, out, rdec1))"

definition Rd_unread_data :: "Range_decoder \<Rightarrow> 32 word \<Rightarrow> bool \<times> Range_decoder" where
  "Rd_unread_data rdec sz =
     (if ucast sz > rd_member_position rdec then (False, rdec)
      else
        let (ok, cb) = Cb_unread_data (rd_cb rdec) sz
        in if \<not> ok then (False, rdec\<lparr> rd_cb := cb \<rparr>)
           else (True, rdec\<lparr> rd_cb := cb, rd_member_position := rd_member_position rdec - ucast sz \<rparr>))"

fun Rd_try_reload_loop :: "nat \<Rightarrow> Range_decoder \<Rightarrow> Range_decoder" where
  "Rd_try_reload_loop 0 rdec = rdec"
| "Rd_try_reload_loop (Suc n) rdec =
     (let (b, rdec1) = Rd_get_byte rdec
      in Rd_try_reload_loop n (rdec1\<lparr> rd_code := push_bit 8 (rd_code rdec1) OR ucast b \<rparr>))"

definition Rd_try_reload :: "Range_decoder \<Rightarrow> bool \<times> Range_decoder" where
  "Rd_try_reload rdec =
     (let rdec' =
            (if rd_reload_pending rdec \<and> Rd_available_bytes rdec \<ge> 5
             then
               let r1 = Rd_try_reload_loop 5 (rdec\<lparr> rd_reload_pending := False, rd_code := 0 \<rparr>);
                   r2 = r1\<lparr> rd_range := 0xFFFFFFFF \<rparr>
               in r2\<lparr> rd_code := rd_code r2 AND rd_range r2 \<rparr>
             else rdec)
      in (\<not> rd_reload_pending rdec', rdec'))"

definition Rd_normalize :: "Range_decoder \<Rightarrow> Range_decoder" where
  "Rd_normalize rdec =
     (if rd_range rdec \<le> 0x00FFFFFF
      then
        let r1 = rdec\<lparr> rd_range := push_bit 8 (rd_range rdec) \<rparr>;
            (b, r2) = Rd_get_byte r1
        in r2\<lparr> rd_code := push_bit 8 (rd_code r1) OR ucast b \<rparr>
      else rdec)"

text \<open>One iteration of the loop of \<^verbatim>\<open>Rd_decode\<close> (a direct bit of fixed probability 1/2),
  and the loop counting \<open>i\<close> down from \<^verbatim>\<open>num_bits\<close>.\<close>

definition Rd_decode_iter :: "32 word \<times> Range_decoder \<Rightarrow> 32 word \<times> Range_decoder" where
  "Rd_decode_iter = (\<lambda>(symbol, rdec).
     let r1 = Rd_normalize rdec;
         r2 = r1\<lparr> rd_range := drop_bit 1 (rd_range r1) \<rparr>;
         bit = (of_bool (rd_code r2 \<ge> rd_range r2) :: 32 word)
     in (push_bit 1 symbol + bit, r2\<lparr> rd_code := rd_code r2 - (rd_range r2 AND (0 - bit)) \<rparr>))"

fun Rd_decode_loop :: "nat \<Rightarrow> 32 word \<times> Range_decoder \<Rightarrow> 32 word \<times> Range_decoder" where
  "Rd_decode_loop 0 s = s"
| "Rd_decode_loop (Suc n) s = Rd_decode_loop n (Rd_decode_iter s)"

definition Rd_decode :: "Range_decoder \<Rightarrow> nat \<Rightarrow> 32 word \<times> Range_decoder" where
  "Rd_decode rdec num_bits = Rd_decode_loop num_bits (0, rdec)"

text \<open>\<^verbatim>\<open>Rd_decode_bit\<close> returns the bit, the decoder and the new value of
  \<^verbatim>\<open>*probability\<close>.\<close>

definition Rd_decode_bit :: "Range_decoder \<Rightarrow> Bit_model \<Rightarrow> 32 word \<times> Range_decoder \<times> Bit_model" where
  "Rd_decode_bit rdec probability =
     (let r1 = Rd_normalize rdec;
          bound = drop_bit bit_model_total_bits (rd_range r1) * probability
      in if rd_code r1 < bound
         then (0, r1\<lparr> rd_range := bound \<rparr>,
               probability + signed_drop_bit bit_model_move_bits (bit_model_total - probability))
         else (1, r1\<lparr> rd_code := rd_code r1 - bound, rd_range := rd_range r1 - bound \<rparr>,
               probability - signed_drop_bit bit_model_move_bits probability))"

text \<open>The step shared by the bit trees: \<^verbatim>\<open>symbol = (symbol << 1) | Rd_decode_bit (rdec,
  &bm[symbol])\<close>. The first step of \<^verbatim>\<open>Rd_decode_tree3\<close> and \<^verbatim>\<open>Rd_decode_tree6\<close>,
  \<^verbatim>\<open>symbol = 2 | Rd_decode_bit (rdec, &bm[1])\<close>, is this step from \<open>symbol = 1\<close>.\<close>

type_synonym bm_array = "nat \<Rightarrow> Bit_model"

definition Rd_tree_bit :: "32 word \<times> Range_decoder \<times> bm_array \<Rightarrow> 32 word \<times> Range_decoder \<times> bm_array" where
  "Rd_tree_bit = (\<lambda>(symbol, rdec, bm).
     let (bit, rdec', p') = Rd_decode_bit rdec (bm (unat symbol))
     in (push_bit 1 symbol OR bit, rdec', bm(unat symbol := p')))"

definition Rd_decode_tree3 :: "Range_decoder \<Rightarrow> bm_array \<Rightarrow> 32 word \<times> Range_decoder \<times> bm_array" where
  "Rd_decode_tree3 rdec bm =
     (let (symbol, rdec', bm') = Rd_tree_bit (Rd_tree_bit (Rd_tree_bit (1, rdec, bm)))
      in (symbol AND 7, rdec', bm'))"

definition Rd_decode_tree6 :: "Range_decoder \<Rightarrow> bm_array \<Rightarrow> 32 word \<times> Range_decoder \<times> bm_array" where
  "Rd_decode_tree6 rdec bm =
     (let (symbol, rdec', bm') =
            Rd_tree_bit (Rd_tree_bit (Rd_tree_bit (Rd_tree_bit (Rd_tree_bit (Rd_tree_bit (1, rdec, bm))))))
      in (symbol AND 0x3F, rdec', bm'))"

definition Rd_decode_tree8 :: "Range_decoder \<Rightarrow> bm_array \<Rightarrow> 32 word \<times> Range_decoder \<times> bm_array" where
  "Rd_decode_tree8 rdec bm =
     (let (symbol, rdec', bm') = (Rd_tree_bit ^^ 8) (1, rdec, bm)
      in (symbol AND 0xFF, rdec', bm'))"

text \<open>\<^verbatim>\<open>Rd_decode_tree_reversed\<close>: \<open>i\<close> counts up from 0 to \<^verbatim>\<open>num_bits - 1\<close>.\<close>

fun Rd_decode_tree_reversed_loop ::
  "nat \<Rightarrow> nat \<Rightarrow> 32 word \<Rightarrow> 32 word \<Rightarrow> Range_decoder \<Rightarrow> bm_array \<Rightarrow> 32 word \<times> Range_decoder \<times> bm_array" where
  "Rd_decode_tree_reversed_loop i 0 model symbol rdec bm = (symbol, rdec, bm)"
| "Rd_decode_tree_reversed_loop i (Suc n) model symbol rdec bm =
     (let (bit, rdec', p') = Rd_decode_bit rdec (bm (unat model))
      in Rd_decode_tree_reversed_loop (Suc i) n (push_bit 1 model + bit) (symbol OR push_bit i bit)
           rdec' (bm(unat model := p')))"

definition Rd_decode_tree_reversed ::
  "Range_decoder \<Rightarrow> bm_array \<Rightarrow> nat \<Rightarrow> 32 word \<times> Range_decoder \<times> bm_array" where
  "Rd_decode_tree_reversed rdec bm num_bits = Rd_decode_tree_reversed_loop 0 num_bits 1 0 rdec bm"

definition Rd_decode_tree_reversed4 ::
  "Range_decoder \<Rightarrow> bm_array \<Rightarrow> 32 word \<times> Range_decoder \<times> bm_array" where
  "Rd_decode_tree_reversed4 rdec bm =
     (let (b0, r1, p1) = Rd_decode_bit rdec (bm 1);
          bm1 = bm(1 := p1);
          symbol1 = b0;
          (b1, r2, p2) = Rd_decode_bit r1 (bm1 (unat (2 + symbol1)));
          bm2 = bm1(unat (2 + symbol1) := p2);
          symbol2 = symbol1 + push_bit 1 b1;
          (b2, r3, p3) = Rd_decode_bit r2 (bm2 (unat (4 + symbol2)));
          bm3 = bm2(unat (4 + symbol2) := p3);
          symbol3 = symbol2 + push_bit 2 b2;
          (b3, r4, p4) = Rd_decode_bit r3 (bm3 (unat (8 + symbol3)));
          bm4 = bm3(unat (8 + symbol3) := p4)
      in (symbol3 + push_bit 3 b3, r4, bm4))"

text \<open>\<^verbatim>\<open>Rd_decode_matched\<close> is a \<^verbatim>\<open>while (1)\<close> that returns once \<^verbatim>\<open>symbol > 0xFF\<close>.
  \<open>symbol\<close> starts at 1 and is doubled in each iteration, so the return is taken in the
  eighth iteration; the recursion is bounded by that count.\<close>

fun Rd_decode_matched_loop ::
  "nat \<Rightarrow> 32 word \<Rightarrow> 32 word \<Rightarrow> 32 word \<Rightarrow> Range_decoder \<Rightarrow> bm_array \<Rightarrow> 32 word \<times> Range_decoder \<times> bm_array" where
  "Rd_decode_matched_loop 0 symbol msk match_byte rdec bm = (symbol AND 0xFF, rdec, bm)"
| "Rd_decode_matched_loop (Suc n) symbol msk match_byte rdec bm =
     (let match_byte' = push_bit 1 match_byte;
          match_bit = match_byte' AND msk;
          idx = unat (symbol + match_bit + msk);
          (bit, rdec', p') = Rd_decode_bit rdec (bm idx);
          bm' = bm(idx := p');
          symbol' = push_bit 1 symbol + bit
      in if symbol' > 0xFF then (symbol' AND 0xFF, rdec', bm')
         else Rd_decode_matched_loop n symbol' (msk AND NOT (match_bit XOR push_bit 8 bit))
                match_byte' rdec' bm')"

definition Rd_decode_matched ::
  "Range_decoder \<Rightarrow> bm_array \<Rightarrow> 32 word \<Rightarrow> 32 word \<times> Range_decoder \<times> bm_array" where
  "Rd_decode_matched rdec bm match_byte = Rd_decode_matched_loop 8 1 0x100 match_byte rdec bm"

definition Rd_decode_len ::
  "Range_decoder \<Rightarrow> Len_model \<Rightarrow> nat \<Rightarrow> 32 word \<times> Range_decoder \<times> Len_model" where
  "Rd_decode_len rdec lm pos_state =
     (let (c1, r1, p1) = Rd_decode_bit rdec (lm_choice1 lm);
          lm1 = lm\<lparr> lm_choice1 := p1 \<rparr>
      in if c1 = 0
         then
           let (sym, r2, bm') = Rd_decode_tree3 r1 (lm_bm_low lm1 pos_state)
           in (sym, r2, lm1\<lparr> lm_bm_low := (lm_bm_low lm1)(pos_state := bm') \<rparr>)
         else
           let (c2, r2, p2) = Rd_decode_bit r1 (lm_choice2 lm1);
               lm2 = lm1\<lparr> lm_choice2 := p2 \<rparr>
           in if c2 = 0
              then
                let (sym, r3, bm') = Rd_decode_tree3 r2 (lm_bm_mid lm2 pos_state)
                in (of_nat len_low_symbols + sym, r3,
                    lm2\<lparr> lm_bm_mid := (lm_bm_mid lm2)(pos_state := bm') \<rparr>)
              else
                let (sym, r3, bm') = Rd_decode_tree8 r2 (lm_bm_high lm2)
                in (of_nat len_low_symbols + of_nat len_mid_symbols + sym, r3,
                    lm2\<lparr> lm_bm_high := bm' \<rparr>))"

section \<open>LZ decoder\<close>

definition lzd_min_free_bytes :: "32 word" where "lzd_min_free_bytes = of_nat max_match_len"

text \<open>\<^verbatim>\<open>struct LZ_decoder\<close> without its pointer \<^verbatim>\<open>rdec\<close>: the range decoder is passed beside
  it.\<close>

record LZ_decoder =
  lzd_cb :: Circular_buffer
  lzd_partial_data_pos :: "64 word"
  lzd_dictionary_size :: "32 word"
  lzd_crc :: "32 word"
  lzd_member_finished :: bool
  lzd_verify_trailer_pending :: bool
  lzd_pos_wrapped :: bool
  lzd_rep0 :: "32 word"
  lzd_rep1 :: "32 word"
  lzd_rep2 :: "32 word"
  lzd_rep3 :: "32 word"
  lzd_state :: State
  lzd_bm_literal :: "nat \<Rightarrow> bm_array"
  lzd_bm_match :: "nat \<Rightarrow> bm_array"
  lzd_bm_rep :: bm_array
  lzd_bm_rep0 :: bm_array
  lzd_bm_rep1 :: bm_array
  lzd_bm_rep2 :: bm_array
  lzd_bm_len :: "nat \<Rightarrow> bm_array"
  lzd_bm_dis_slot :: "nat \<Rightarrow> bm_array"
  lzd_bm_dis :: bm_array
  lzd_bm_align :: bm_array
  lzd_match_len_model :: Len_model
  lzd_rep_len_model :: Len_model

definition LZd_enough_free_bytes :: "LZ_decoder \<Rightarrow> bool" where
  "LZd_enough_free_bytes d = (Cb_free_bytes (lzd_cb d) \<ge> lzd_min_free_bytes)"

definition LZd_peek_prev :: "LZ_decoder \<Rightarrow> 8 word" where
  "LZd_peek_prev d =
     cb_buffer (lzd_cb d)
       (unat ((if cb_put (lzd_cb d) > 0 then cb_put (lzd_cb d) else cb_buffer_size (lzd_cb d)) - 1))"

definition LZd_peek :: "LZ_decoder \<Rightarrow> 32 word \<Rightarrow> 8 word" where
  "LZd_peek d distance =
     (let i = (if cb_put (lzd_cb d) > distance then 0 else cb_buffer_size (lzd_cb d))
              + cb_put (lzd_cb d) - distance - 1
      in cb_buffer (lzd_cb d) (unat i))"

definition LZd_put_byte :: "LZ_decoder \<Rightarrow> 8 word \<Rightarrow> LZ_decoder" where
  "LZd_put_byte d b =
     (let cb = lzd_cb d;
          d1 = d\<lparr> lzd_crc := CRC32_update_byte (lzd_crc d) b,
                  lzd_cb := cb\<lparr> cb_buffer := (cb_buffer cb)(unat (cb_put cb) := b) \<rparr> \<rparr>;
          p = cb_put cb + 1
      in if p \<ge> cb_buffer_size cb
         then d1\<lparr> lzd_partial_data_pos := lzd_partial_data_pos d1 + ucast p,
                  lzd_cb := (lzd_cb d1)\<lparr> cb_put := 0 \<rparr>,
                  lzd_pos_wrapped := True \<rparr>
         else d1\<lparr> lzd_cb := (lzd_cb d1)\<lparr> cb_put := p \<rparr> \<rparr>)"

text \<open>The two copy loops of \<^verbatim>\<open>LZd_copy_block\<close>: the forward byte copy
  \<^verbatim>\<open>buffer[lpos++] = buffer[i++]\<close> of the fast path, and the wrapping copy through
  \<^verbatim>\<open>LZd_put_byte\<close>.\<close>

fun LZd_copy_fast_loop :: "nat \<Rightarrow> (nat \<Rightarrow> 8 word) \<Rightarrow> 32 word \<Rightarrow> 32 word \<Rightarrow> (nat \<Rightarrow> 8 word)" where
  "LZd_copy_fast_loop 0 buf lpos i = buf"
| "LZd_copy_fast_loop (Suc n) buf lpos i =
     LZd_copy_fast_loop n (buf(unat lpos := buf (unat i))) (lpos + 1) (i + 1)"

fun LZd_copy_slow_loop :: "nat \<Rightarrow> LZ_decoder \<Rightarrow> 32 word \<Rightarrow> LZ_decoder" where
  "LZd_copy_slow_loop 0 d i = d"
| "LZd_copy_slow_loop (Suc n) d i =
     (let d' = LZd_put_byte d (cb_buffer (lzd_cb d) (unat i));
          i' = i + 1
      in LZd_copy_slow_loop n d' (if i' \<ge> cb_buffer_size (lzd_cb d') then 0 else i'))"

definition LZd_copy_block :: "LZ_decoder \<Rightarrow> 32 word \<Rightarrow> 32 word \<Rightarrow> LZ_decoder" where
  "LZd_copy_block d distance len =
     (let cb = lzd_cb d;
          lpos = cb_put cb;
          i0 = lpos - distance - 1;
          (i, fast, fast2) =
            (if lpos > distance
             then (let fast = (len < cb_buffer_size cb - lpos)
                   in (i0, fast, fast \<and> len \<le> lpos - i0))
             else (let i1 = i0 + cb_buffer_size cb;
                       fast = (len < cb_buffer_size cb - i1)
                   in (i1, fast, fast \<and> len \<le> i1 - lpos)))
      in if fast
         then
           let buf' = (if fast2
                       then memcpy (cb_buffer cb) (unat lpos) (\<lambda>k. cb_buffer cb (unat i + k)) (unat len)
                       else LZd_copy_fast_loop (unat len) (cb_buffer cb) lpos i)
           in d\<lparr> lzd_crc := CRC32_update_buf (lzd_crc d) (\<lambda>k. buf' (unat (cb_put cb) + k)) (unat len),
                  lzd_cb := cb\<lparr> cb_buffer := buf', cb_put := cb_put cb + len \<rparr> \<rparr>
         else LZd_copy_slow_loop (unat len) d i)"

definition LZd_init :: "bool \<Rightarrow> 32 word \<Rightarrow> bool \<times> LZ_decoder" where
  "LZd_init mem_ok dict_size =
     (let (ok, cb) = Cb_init mem_ok (max 65536 dict_size + lzd_min_free_bytes);
          cb' = (if ok then cb\<lparr> cb_buffer := (cb_buffer cb)(unat (cb_buffer_size cb - 1) := 0) \<rparr> else cb)
      in (ok,
          \<lparr> lzd_cb = cb', lzd_partial_data_pos = 0, lzd_dictionary_size = dict_size,
            lzd_crc = 0xFFFFFFFF, lzd_member_finished = False, lzd_verify_trailer_pending = False,
            lzd_pos_wrapped = False, lzd_rep0 = 0, lzd_rep1 = 0, lzd_rep2 = 0, lzd_rep3 = 0,
            lzd_state = 0,
            lzd_bm_literal = (\<lambda>i. Bm_array_init), lzd_bm_match = (\<lambda>i. Bm_array_init),
            lzd_bm_rep = Bm_array_init, lzd_bm_rep0 = Bm_array_init, lzd_bm_rep1 = Bm_array_init,
            lzd_bm_rep2 = Bm_array_init, lzd_bm_len = (\<lambda>i. Bm_array_init),
            lzd_bm_dis_slot = (\<lambda>i. Bm_array_init), lzd_bm_dis = Bm_array_init,
            lzd_bm_align = Bm_array_init, lzd_match_len_model = Lm_init,
            lzd_rep_len_model = Lm_init \<rparr>))"

definition LZd_member_finished :: "LZ_decoder \<Rightarrow> bool" where
  "LZd_member_finished d = (lzd_member_finished d \<and> Cb_empty (lzd_cb d))"

definition LZd_crc :: "LZ_decoder \<Rightarrow> 32 word" where
  "LZd_crc d = lzd_crc d XOR 0xFFFFFFFF"

definition LZd_data_position :: "LZ_decoder \<Rightarrow> 64 word" where
  "LZd_data_position d = lzd_partial_data_pos d + ucast (cb_put (lzd_cb d))"

text \<open>The functions of the decoder that return a status return it with the new decoder and
  range decoder. \<^verbatim>\<open>LZd_try_verify_trailer\<close>: 0 is "trailer good" or "wait for input", 2 is
  an unexpected end of input, 3 a trailer that does not match.\<close>

definition LZd_try_verify_trailer :: "LZ_decoder \<Rightarrow> Range_decoder \<Rightarrow> nat \<times> LZ_decoder \<times> Range_decoder" where
  "LZd_try_verify_trailer d rdec =
     (if Rd_available_bytes rdec < of_nat Lt_size
      then (if \<not> rd_at_stream_end rdec then (0, d, rdec) else (2, d, rdec))
      else
        let d1 = d\<lparr> lzd_verify_trailer_pending := False, lzd_member_finished := True \<rparr>;
            (n, trailer, rdec1) = Rd_read_data rdec (of_nat Lt_size)
        in if n = of_nat Lt_size \<and>
              Lt_get_data_crc trailer = LZd_crc d1 \<and>
              Lt_get_data_size trailer = LZd_data_position d1 \<and>
              Lt_get_member_size trailer = rd_member_position rdec1
           then (0, d1, rdec1)
           else (3, d1, rdec1))"

subsection \<open>One iteration of the loop of \<^verbatim>\<open>LZd_decode_member\<close>\<close>

text \<open>An iteration ends in \<^verbatim>\<open>continue\<close> (or falls through to the end of the body), in
  \<^verbatim>\<open>return\<close> with a status, or in \<^verbatim>\<open>break\<close>.\<close>

datatype loop_step =
    Continue "LZ_decoder \<times> Range_decoder"
  | Return nat "LZ_decoder \<times> Range_decoder"
  | Break "LZ_decoder \<times> Range_decoder"

text \<open>The literal branch (\<^verbatim>\<open>Rd_decode_bit (bm_match) == 0\<close>).\<close>

definition LZd_decode_literal :: "LZ_decoder \<Rightarrow> Range_decoder \<Rightarrow> LZ_decoder \<times> Range_decoder" where
  "LZd_decode_literal d rdec =
     (let ls = get_lit_state (LZd_peek_prev d);
          bm = lzd_bm_literal d ls;
          st = lzd_state d
      in if St_is_char st
         then
           let d1 = d\<lparr> lzd_state := st - (if st < 4 then st else 3) \<rparr>;
               (sym, r1, bm') = Rd_decode_tree8 rdec bm;
               d2 = d1\<lparr> lzd_bm_literal := (lzd_bm_literal d1)(ls := bm') \<rparr>
           in (LZd_put_byte d2 (ucast sym), r1)
         else
           let d1 = d\<lparr> lzd_state := st - (if st < 10 then 3 else 6) \<rparr>;
               (sym, r1, bm') = Rd_decode_matched rdec bm (ucast (LZd_peek d1 (lzd_rep0 d1)));
               d2 = d1\<lparr> lzd_bm_literal := (lzd_bm_literal d1)(ls := bm') \<rparr>
           in (LZd_put_byte d2 (ucast sym), r1))"

text \<open>The repeated-match branch (\<^verbatim>\<open>Rd_decode_bit (bm_rep) != 0\<close>): a short repeat puts
  one byte and continues; otherwise the chosen distance is moved to the front and the
  length is decoded with \<^verbatim>\<open>rep_len_model\<close>.\<close>

definition LZd_decode_rep :: "LZ_decoder \<Rightarrow> Range_decoder \<Rightarrow> nat \<Rightarrow> loop_step" where
  "LZd_decode_rep d rdec pos_state =
     (let st = lzd_state d;
          (b0, r1, p0) = Rd_decode_bit rdec (lzd_bm_rep0 d st);
          d1 = d\<lparr> lzd_bm_rep0 := (lzd_bm_rep0 d)(st := p0) \<rparr>;
          finish = (\<lambda>d r.
            let d' = d\<lparr> lzd_state := St_set_rep (lzd_state d) \<rparr>;
                (sym, r', lm') = Rd_decode_len r (lzd_rep_len_model d') pos_state;
                len = of_nat min_match_len + sym;
                d'' = d'\<lparr> lzd_rep_len_model := lm' \<rparr>
            in Continue (LZd_copy_block d'' (lzd_rep0 d'') len, r'))
      in if b0 = 0
         then
           let (bl, r2, pl) = Rd_decode_bit r1 (lzd_bm_len d1 st pos_state);
               d2 = d1\<lparr> lzd_bm_len := (lzd_bm_len d1)(st := (lzd_bm_len d1 st)(pos_state := pl)) \<rparr>
           in if bl = 0
              then
                let d3 = d2\<lparr> lzd_state := St_set_short_rep st \<rparr>
                in Continue (LZd_put_byte d3 (LZd_peek d3 (lzd_rep0 d3)), r2)
              else finish d2 r2
         else
           let (b1, r2, p1) = Rd_decode_bit r1 (lzd_bm_rep1 d1 st);
               d2 = d1\<lparr> lzd_bm_rep1 := (lzd_bm_rep1 d1)(st := p1) \<rparr>
           in if b1 = 0
              then finish (d2\<lparr> lzd_rep1 := lzd_rep0 d2, lzd_rep0 := lzd_rep1 d2 \<rparr>) r2
              else
                let (b2, r3, p2) = Rd_decode_bit r2 (lzd_bm_rep2 d2 st);
                    d3 = d2\<lparr> lzd_bm_rep2 := (lzd_bm_rep2 d2)(st := p2) \<rparr>
                in if b2 = 0
                   then finish (d3\<lparr> lzd_rep2 := lzd_rep1 d3, lzd_rep1 := lzd_rep0 d3,
                                     lzd_rep0 := lzd_rep2 d3 \<rparr>) r3
                   else finish (d3\<lparr> lzd_rep3 := lzd_rep2 d3, lzd_rep2 := lzd_rep1 d3,
                                     lzd_rep1 := lzd_rep0 d3, lzd_rep0 := lzd_rep3 d3 \<rparr>) r3)"

text \<open>The normal-match branch first decodes the pair: the length with
  \<^verbatim>\<open>match_len_model\<close>, the distance slot with \<^verbatim>\<open>bm_dis_slot\<close>, and the distance from
  the slot (the mirror of \<^verbatim>\<open>LZeb_encode_pair\<close>). The pointer
  \<^verbatim>\<open>d->bm_dis + (distance - dis_slot)\<close> is the array \<^verbatim>\<open>bm_dis\<close> seen from that offset.
  The result is the length, the slot, the distance and the new state.\<close>

definition LZd_decode_pair ::
  "LZ_decoder \<Rightarrow> Range_decoder \<Rightarrow> nat \<Rightarrow> 32 word \<times> 32 word \<times> 32 word \<times> LZ_decoder \<times> Range_decoder" where
  "LZd_decode_pair d rdec pos_state =
     (let (sym, r1, lm') = Rd_decode_len rdec (lzd_match_len_model d) pos_state;
          len = of_nat min_match_len + sym;
          d1 = d\<lparr> lzd_match_len_model := lm' \<rparr>;
          ls = get_len_state (unat len);
          (dis_slot, r2, bm') = Rd_decode_tree6 r1 (lzd_bm_dis_slot d1 ls);
          d2 = d1\<lparr> lzd_bm_dis_slot := (lzd_bm_dis_slot d1)(ls := bm') \<rparr>
      in if dis_slot \<ge> of_nat start_dis_model
         then
           let direct_bits = unat (drop_bit 1 dis_slot) - 1;
               distance1 = push_bit direct_bits (2 OR (dis_slot AND 1))
           in if dis_slot < of_nat end_dis_model
              then
                let off = unat (distance1 - dis_slot);
                    (sym2, r3, view') =
                      Rd_decode_tree_reversed r2 (\<lambda>k. lzd_bm_dis d2 (off + k)) direct_bits
                in (len, dis_slot, distance1 + sym2,
                    d2\<lparr> lzd_bm_dis := (\<lambda>j. if j \<ge> off then view' (j - off) else lzd_bm_dis d2 j) \<rparr>,
                    r3)
              else
                let (sym2, r3) = Rd_decode r2 (direct_bits - dis_align_bits);
                    distance2 = distance1 + push_bit dis_align_bits sym2;
                    (sym3, r4, bm'') = Rd_decode_tree_reversed4 r3 (lzd_bm_align d2)
                in (len, dis_slot, distance2 + sym3, d2\<lparr> lzd_bm_align := bm'' \<rparr>, r4)
         else (len, dis_slot, dis_slot, d2, r2))"

text \<open>The rest of the normal-match branch. The test \<^verbatim>\<open>distance == 0xFFFFFFFFU\<close> stands
  inside the branch of the slots from \<^verbatim>\<open>end_dis_model\<close> on; a marker is told apart by
  its length. Otherwise the distance enters the repeat stack and is checked against the
  dictionary before the block is copied.\<close>

definition LZd_decode_match :: "LZ_decoder \<Rightarrow> Range_decoder \<Rightarrow> nat \<Rightarrow> loop_step" where
  "LZd_decode_match d rdec pos_state =
     (let (len, dis_slot, distance, d1, r1) = LZd_decode_pair d rdec pos_state
      in if dis_slot \<ge> of_nat start_dis_model \<and> \<not> dis_slot < of_nat end_dis_model \<and>
            distance = 0xFFFFFFFF
         then
           let r2 = Rd_normalize r1
           in if len = of_nat min_match_len
              then
                (case LZd_try_verify_trailer (d1\<lparr> lzd_verify_trailer_pending := True \<rparr>) r2 of
                   (res, d2, r3) \<Rightarrow> Return res (d2, r3))
              else if len = of_nat min_match_len + 1
              then
                let (ok, r3) = Rd_try_reload (r2\<lparr> rd_reload_pending := True \<rparr>)
                in if ok then Continue (d1, r3)
                   else if \<not> rd_at_stream_end r3 then Return 0 (d1, r3)
                   else Break (d1, r3)
              else Return 4 (d1, r2)
         else
           let d2 = d1\<lparr> lzd_rep3 := lzd_rep2 d1, lzd_rep2 := lzd_rep1 d1, lzd_rep1 := lzd_rep0 d1,
                        lzd_rep0 := distance, lzd_state := St_set_match (lzd_state d1) \<rparr>
           in if lzd_rep0 d2 \<ge> lzd_dictionary_size d2 \<or>
                 (lzd_rep0 d2 \<ge> cb_put (lzd_cb d2) \<and> \<not> lzd_pos_wrapped d2)
              then Return 1 (d2, r1)
              else Continue (LZd_copy_block d2 (lzd_rep0 d2) len, r1))"

definition LZd_decode_iter :: "LZ_decoder \<times> Range_decoder \<Rightarrow> loop_step" where
  "LZd_decode_iter = (\<lambda>(d, rdec).
     let pos_state = unat (LZd_data_position d AND of_nat pos_state_mask)
     in if \<not> Rd_enough_available_bytes rdec \<and> \<not> rd_at_stream_end rdec then Return 0 (d, rdec)
        else if \<not> Rd_enough_available_bytes rdec \<and> Cb_empty (rd_cb rdec) then Break (d, rdec)
        else if \<not> LZd_enough_free_bytes d then Return 0 (d, rdec)
        else
          let st = lzd_state d;
              (b, r1, p) = Rd_decode_bit rdec (lzd_bm_match d st pos_state);
              d1 = d\<lparr> lzd_bm_match := (lzd_bm_match d)(st := (lzd_bm_match d st)(pos_state := p)) \<rparr>
          in if b = 0 then Continue (LZd_decode_literal d1 r1)
             else
               let (b2, r2, p2) = Rd_decode_bit r1 (lzd_bm_rep d1 st);
                   d2 = d1\<lparr> lzd_bm_rep := (lzd_bm_rep d1)(st := p2) \<rparr>
               in if b2 \<noteq> 0 then LZd_decode_rep d2 r2 pos_state
                  else LZd_decode_match d2 r2 pos_state)"

subsection \<open>\<^verbatim>\<open>LZd_decode_member\<close>\<close>

text \<open>The \<^verbatim>\<open>while (!Rd_finished (rdec))\<close> loop. It is a partial function: \<open>None\<close> is a
  loop that does not return. Leaving the loop by its condition or by \<^verbatim>\<open>break\<close> returns 2.\<close>

partial_function (option) LZd_decode_loop ::
  "LZ_decoder \<times> Range_decoder \<Rightarrow> (nat \<times> LZ_decoder \<times> Range_decoder) option" where
  "LZd_decode_loop s =
     (if Rd_finished (snd s) then Some (2, s)
      else (case LZd_decode_iter s of
              Continue s' \<Rightarrow> LZd_decode_loop s'
            | Return res s' \<Rightarrow> Some (res, s')
            | Break s' \<Rightarrow> Some (2, s')))"

definition LZd_decode_member ::
  "LZ_decoder \<Rightarrow> Range_decoder \<Rightarrow> (nat \<times> LZ_decoder \<times> Range_decoder) option" where
  "LZd_decode_member d rdec =
     (if lzd_member_finished d then Some (0, d, rdec)
      else
        let (ok, r1) = Rd_try_reload rdec
        in if \<not> ok then (if \<not> rd_at_stream_end r1 then Some (0, d, r1) else Some (2, d, r1))
           else if lzd_verify_trailer_pending d then Some (LZd_try_verify_trailer d r1)
           else LZd_decode_loop (d, r1))"

section \<open>Match finder base\<close>

text \<open>\<^verbatim>\<open>struct Matchfinder_base\<close>. Its \<^verbatim>\<open>int\<close> fields are \<open>int\<close>; an \<^verbatim>\<open>unsigned\<close> value
  stored into one is read through \<open>sint\<close>. The pointer \<^verbatim>\<open>pos_array\<close> is
  \<^verbatim>\<open>prev_positions + num_prev_positions\<close>, so it is not a field of the record.\<close>

record Matchfinder_base =
  mb_partial_data_pos :: "64 word"
  mb_buffer :: "nat \<Rightarrow> 8 word"
  mb_prev_positions :: "nat \<Rightarrow> int"
  mb_before_size :: int
  mb_after_size :: int
  mb_buffer_size :: int
  mb_dictionary_size :: int
  mb_pos :: int
  mb_cyclic_pos :: int
  mb_stream_pos :: int
  mb_pos_limit :: int
  mb_key4_mask :: int
  mb_num_prev_positions23 :: int
  mb_num_prev_positions :: int
  mb_pos_array_size :: int
  mb_saved_dictionary_size :: int
  mb_at_stream_end :: bool
  mb_sync_flush_pending :: bool

definition Mb_available_bytes :: "Matchfinder_base \<Rightarrow> int" where
  "Mb_available_bytes mb = mb_stream_pos mb - mb_pos mb"



definition Mb_data_finished :: "Matchfinder_base \<Rightarrow> bool" where
  "Mb_data_finished mb = (mb_at_stream_end mb \<and> mb_pos mb \<ge> mb_stream_pos mb)"

definition Mb_flushing_or_end :: "Matchfinder_base \<Rightarrow> bool" where
  "Mb_flushing_or_end mb = (mb_at_stream_end mb \<or> mb_sync_flush_pending mb)"

definition Mb_free_bytes :: "Matchfinder_base \<Rightarrow> int" where
  "Mb_free_bytes mb = (if Mb_flushing_or_end mb then 0 else mb_buffer_size mb - mb_stream_pos mb)"

definition Mb_enough_available_bytes :: "Matchfinder_base \<Rightarrow> bool" where
  "Mb_enough_available_bytes mb =
     (mb_pos mb + mb_after_size mb \<le> mb_stream_pos mb \<or>
      (Mb_flushing_or_end mb \<and> mb_pos mb < mb_stream_pos mb))"


text \<open>The table size shared by \<^verbatim>\<open>Mb_init\<close> and \<^verbatim>\<open>Mb_adjust_array\<close>:
  \<^verbatim>\<open>1 << max (16, real_bits (dictionary_size - 1) - 2)\<close>, halved above \<^verbatim>\<open>1 << 26\<close>.\<close>

definition Mb_key4_size :: "int \<Rightarrow> 32 word" where
  "Mb_key4_size dictionary_size =
     (let sz = push_bit (max 16 (real_bits (word_of_int (dictionary_size - 1)) - 2)) (1 :: 32 word)
      in if dictionary_size > 2 ^ 26 then drop_bit 1 sz else sz)"

text \<open>\<^verbatim>\<open>Mb_init\<close>: \<open>mem_ok\<close> is whether the two \<^verbatim>\<open>malloc\<close> calls succeed. The overflow test
  \<^verbatim>\<open>size * sizeof (int32_t) <= size\<close> is computed in a 64-bit \<^verbatim>\<open>size_t\<close>.\<close>

definition Mb_init :: "bool \<Rightarrow> int \<Rightarrow> int \<Rightarrow> int \<Rightarrow> int \<Rightarrow> int \<Rightarrow> int \<Rightarrow> bool \<times> Matchfinder_base" where
  "Mb_init mem_ok before_size dict_size after_size dict_factor num_prev_positions23 pos_array_factor =
     (let buffer_size_limit = dict_factor * dict_size + before_size + after_size;
          buffer_size = max 65536 buffer_size_limit;
          size1 = Mb_key4_size dict_size;
          size2 = size1 + word_of_int num_prev_positions23;
          pos_array_size = pos_array_factor * (dict_size + 1);
          size3 = size2 + word_of_int pos_array_size;
          ok = (mem_ok \<and> \<not> ((ucast size3 :: 64 word) * 4 \<le> ucast size3))
      in (ok,
          \<lparr> mb_partial_data_pos = 0, mb_buffer = (\<lambda>k. 0), mb_prev_positions = (\<lambda>k. 0),
            mb_before_size = before_size, mb_after_size = after_size,
            mb_buffer_size = buffer_size, mb_dictionary_size = dict_size,
            mb_pos = 0, mb_cyclic_pos = 0, mb_stream_pos = 0,
            mb_pos_limit = buffer_size - after_size,
            mb_key4_mask = sint (size1 - 1),
            mb_num_prev_positions23 = num_prev_positions23,
            mb_num_prev_positions = sint size2,
            mb_pos_array_size = pos_array_size,
            mb_saved_dictionary_size = dict_size,
            mb_at_stream_end = False, mb_sync_flush_pending = False \<rparr>))"

definition Mb_adjust_array :: "Matchfinder_base \<Rightarrow> Matchfinder_base" where
  "Mb_adjust_array mb =
     (let size1 = sint (Mb_key4_size (mb_dictionary_size mb))
      in mb\<lparr> mb_key4_mask := size1 - 1,
              mb_num_prev_positions := size1 + mb_num_prev_positions23 mb \<rparr>)"


definition Mb_reset :: "Matchfinder_base \<Rightarrow> Matchfinder_base" where
  "Mb_reset mb =
     (let buf = (if mb_stream_pos mb > mb_pos mb
                 then memcpy (mb_buffer mb) 0 (\<lambda>k. mb_buffer mb (nat (mb_pos mb) + k))
                        (nat (mb_stream_pos mb - mb_pos mb))
                 else mb_buffer mb);
          mb1 = mb\<lparr> mb_buffer := buf, mb_partial_data_pos := 0,
                    mb_stream_pos := mb_stream_pos mb - mb_pos mb, mb_pos := 0, mb_cyclic_pos := 0,
                    mb_at_stream_end := False, mb_sync_flush_pending := False,
                    mb_dictionary_size := mb_saved_dictionary_size mb \<rparr>;
          mb2 = Mb_adjust_array mb1;
          mb3 = mb2\<lparr> mb_pos_limit := mb_buffer_size mb2 - mb_after_size mb2 \<rparr>
      in mb3\<lparr> mb_prev_positions :=
                 (\<lambda>k. if int k < mb_num_prev_positions mb3 then 0 else mb_prev_positions mb3 k) \<rparr>)"

section \<open>Range encoder\<close>

record Range_encoder =
  re_cb :: Circular_buffer
  re_min_free_bytes :: "32 word"
  re_low :: "64 word"
  re_partial_member_pos :: "64 word"
  re_range :: "32 word"
  re_ff_count :: "32 word"
  re_cache :: "8 word"
  re_header :: Lzip_header

text \<open>The \<^verbatim>\<open>for (; ff_count > 0; --ff_count) Cb_put_byte (0xFF + carry)\<close> of
  \<^verbatim>\<open>Re_shift_low\<close>.\<close>

fun Re_put_ff :: "nat \<Rightarrow> Circular_buffer \<Rightarrow> 8 word \<Rightarrow> Circular_buffer" where
  "Re_put_ff 0 cb b = cb"
| "Re_put_ff (Suc n) cb b = Re_put_ff n (Cb_put_byte cb b) b"

definition Re_shift_low :: "Range_encoder \<Rightarrow> Range_encoder" where
  "Re_shift_low renc =
     (let r1 =
            (if drop_bit 24 (re_low renc) \<noteq> 0xFF
             then
               let carry = (of_bool (re_low renc > 0xFFFFFFFF) :: 8 word);
                   cb1 = Cb_put_byte (re_cb renc) (re_cache renc + carry);
                   cb2 = Re_put_ff (unat (re_ff_count renc)) cb1 (0xFF + carry)
               in renc\<lparr> re_cb := cb2, re_ff_count := 0, re_cache := ucast (drop_bit 24 (re_low renc)) \<rparr>
             else renc\<lparr> re_ff_count := re_ff_count renc + 1 \<rparr>)
      in r1\<lparr> re_low := push_bit 8 (re_low r1 AND 0x00FFFFFF) \<rparr>)"

fun Re_put_header :: "nat \<Rightarrow> nat \<Rightarrow> Lzip_header \<Rightarrow> Circular_buffer \<Rightarrow> Circular_buffer" where
  "Re_put_header i 0 header cb = cb"
| "Re_put_header i (Suc n) header cb = Re_put_header (Suc i) n header (Cb_put_byte cb (header ! i))"

definition Re_reset :: "Range_encoder \<Rightarrow> 32 word \<Rightarrow> Range_encoder" where
  "Re_reset renc dictionary_size =
     (let header = snd (Lh_set_dictionary_size (re_header renc) dictionary_size)
      in renc\<lparr> re_cb := Re_put_header 0 Lh_size header (Cb_reset (re_cb renc)),
                re_low := 0, re_partial_member_pos := 0, re_range := 0xFFFFFFFF,
                re_ff_count := 0, re_cache := 0, re_header := header \<rparr>)"

text \<open>\<^verbatim>\<open>Re_init\<close>: the header array of the fresh struct is modelled zero-filled before
  \<^verbatim>\<open>Lh_set_magic\<close>.\<close>

definition Re_init :: "bool \<Rightarrow> 32 word \<Rightarrow> 32 word \<Rightarrow> bool \<times> Range_encoder" where
  "Re_init mem_ok dictionary_size min_free_bytes =
     (let (ok, cb) = Cb_init mem_ok (65536 + min_free_bytes);
          renc = \<lparr> re_cb = cb, re_min_free_bytes = min_free_bytes, re_low = 0,
                   re_partial_member_pos = 0, re_range = 0, re_ff_count = 0, re_cache = 0,
                   re_header = Lh_set_magic (replicate 6 0) \<rparr>
      in if \<not> ok then (False, renc) else (True, Re_reset renc dictionary_size))"


definition Re_enough_free_bytes :: "Range_encoder \<Rightarrow> bool" where
  "Re_enough_free_bytes renc =
     (Cb_free_bytes (re_cb renc) \<ge> re_min_free_bytes renc + re_ff_count renc)"

definition Re_read_data :: "Range_encoder \<Rightarrow> 32 word \<Rightarrow> 32 word \<times> 8 word list \<times> Range_encoder" where
  "Re_read_data renc out_size =
     (let (sz, out, cb) = Cb_read_data (re_cb renc) out_size;
          r1 = renc\<lparr> re_cb := cb \<rparr>
      in if 0 <s sz
         then (sz, out, r1\<lparr> re_partial_member_pos := re_partial_member_pos r1 + scast sz \<rparr>)
         else (sz, out, r1))"

definition Re_flush :: "Range_encoder \<Rightarrow> Range_encoder" where
  "Re_flush renc =
     ((Re_shift_low ^^ 5) renc)\<lparr> re_low := 0, re_range := 0xFFFFFFFF, re_ff_count := 0, re_cache := 0 \<rparr>"

text \<open>One iteration of the loop of \<^verbatim>\<open>Re_encode\<close> for the bit of \<^verbatim>\<open>symbol\<close> under
  \<^verbatim>\<open>mask\<close>, and the loop: \<^verbatim>\<open>mask\<close> runs from \<^verbatim>\<open>1 << (num_bits - 1)\<close> down to 1.\<close>

definition Re_encode_iter :: "Range_encoder \<Rightarrow> bool \<Rightarrow> Range_encoder" where
  "Re_encode_iter renc b =
     (let r1 = renc\<lparr> re_range := drop_bit 1 (re_range renc) \<rparr>;
          r2 = (if b then r1\<lparr> re_low := re_low r1 + ucast (re_range r1) \<rparr> else r1)
      in if re_range r2 \<le> 0x00FFFFFF
         then Re_shift_low (r2\<lparr> re_range := push_bit 8 (re_range r2) \<rparr>)
         else r2)"

fun Re_encode_loop :: "nat \<Rightarrow> Range_encoder \<Rightarrow> 32 word \<Rightarrow> Range_encoder" where
  "Re_encode_loop 0 renc symbol = renc"
| "Re_encode_loop (Suc n) renc symbol =
     Re_encode_loop n (Re_encode_iter renc (symbol AND push_bit n 1 \<noteq> 0)) symbol"

definition Re_encode :: "Range_encoder \<Rightarrow> 32 word \<Rightarrow> nat \<Rightarrow> Range_encoder" where
  "Re_encode renc symbol num_bits = Re_encode_loop num_bits renc symbol"

text \<open>\<^verbatim>\<open>Re_encode_bit\<close> returns the encoder and the new value of \<^verbatim>\<open>*probability\<close>.\<close>

definition Re_encode_bit :: "Range_encoder \<Rightarrow> Bit_model \<Rightarrow> bool \<Rightarrow> Range_encoder \<times> Bit_model" where
  "Re_encode_bit renc probability b =
     (let bound = drop_bit bit_model_total_bits (re_range renc) * probability;
          (r1, p') =
            (if \<not> b
             then (renc\<lparr> re_range := bound \<rparr>,
                   probability + signed_drop_bit bit_model_move_bits (bit_model_total - probability))
             else (renc\<lparr> re_low := re_low renc + ucast bound, re_range := re_range renc - bound \<rparr>,
                   probability - signed_drop_bit bit_model_move_bits probability))
      in if re_range r1 \<le> 0x00FFFFFF
         then (Re_shift_low (r1\<lparr> re_range := push_bit 8 (re_range r1) \<rparr>), p')
         else (r1, p'))"

section \<open>LZ encoder base\<close>

definition max_marker_size :: nat where "max_marker_size = 16"
definition num_rep_distances :: nat where "num_rep_distances = 4"

record LZ_encoder_base =
  eb_mb :: Matchfinder_base
  eb_member_size_limit :: "64 word"
  eb_crc :: "32 word"
  eb_bm_literal :: "nat \<Rightarrow> bm_array"
  eb_bm_match :: "nat \<Rightarrow> bm_array"
  eb_bm_rep :: bm_array
  eb_bm_rep0 :: bm_array
  eb_bm_rep1 :: bm_array
  eb_bm_rep2 :: bm_array
  eb_bm_len :: "nat \<Rightarrow> bm_array"
  eb_bm_dis_slot :: "nat \<Rightarrow> bm_array"
  eb_bm_dis :: bm_array
  eb_bm_align :: bm_array
  eb_match_len_model :: Len_model
  eb_rep_len_model :: Len_model
  eb_renc :: Range_encoder
  eb_reps :: "nat \<Rightarrow> int"
  eb_state :: State
  eb_member_finished :: bool

definition LZeb_reset :: "LZ_encoder_base \<Rightarrow> 64 word \<Rightarrow> LZ_encoder_base" where
  "LZeb_reset eb member_size =
     (let min_member_size = (ucast min_dictionary_size :: 64 word);
          max_member_size = (0x0008000000000000 :: 64 word);
          mb = Mb_reset (eb_mb eb)
      in eb\<lparr> eb_mb := mb,
              eb_member_size_limit :=
                min (max min_member_size member_size) max_member_size
                  - of_nat Lt_size - of_nat max_marker_size,
              eb_crc := 0xFFFFFFFF,
              eb_bm_literal := (\<lambda>i. Bm_array_init), eb_bm_match := (\<lambda>i. Bm_array_init),
              eb_bm_rep := Bm_array_init, eb_bm_rep0 := Bm_array_init,
              eb_bm_rep1 := Bm_array_init, eb_bm_rep2 := Bm_array_init,
              eb_bm_len := (\<lambda>i. Bm_array_init), eb_bm_dis_slot := (\<lambda>i. Bm_array_init),
              eb_bm_dis := Bm_array_init, eb_bm_align := Bm_array_init,
              eb_match_len_model := Lm_init, eb_rep_len_model := Lm_init,
              eb_renc := Re_reset (eb_renc eb) (word_of_int (mb_dictionary_size mb)),
              eb_reps := (\<lambda>i. 0), eb_state := 0, eb_member_finished := False \<rparr>)"

text \<open>\<^verbatim>\<open>LZeb_init\<close>: the fields that \<^verbatim>\<open>LZeb_reset\<close> overwrites start from zero.\<close>

definition LZeb_init ::
  "bool \<Rightarrow> int \<Rightarrow> int \<Rightarrow> int \<Rightarrow> int \<Rightarrow> int \<Rightarrow> int \<Rightarrow> 32 word \<Rightarrow> 64 word \<Rightarrow> bool \<times> LZ_encoder_base" where
  "LZeb_init mem_ok before_size dict_size after_size dict_factor num_prev_positions23
       pos_array_factor min_free_bytes member_size =
     (let (ok1, mb) = Mb_init mem_ok before_size dict_size after_size dict_factor
                        num_prev_positions23 pos_array_factor;
          (ok2, renc) = Re_init mem_ok (word_of_int (mb_dictionary_size mb)) min_free_bytes;
          eb = \<lparr> eb_mb = mb, eb_member_size_limit = 0, eb_crc = 0,
                 eb_bm_literal = (\<lambda>i k. 0), eb_bm_match = (\<lambda>i k. 0),
                 eb_bm_rep = (\<lambda>k. 0), eb_bm_rep0 = (\<lambda>k. 0), eb_bm_rep1 = (\<lambda>k. 0),
                 eb_bm_rep2 = (\<lambda>k. 0), eb_bm_len = (\<lambda>i k. 0), eb_bm_dis_slot = (\<lambda>i k. 0),
                 eb_bm_dis = (\<lambda>k. 0), eb_bm_align = (\<lambda>k. 0),
                 eb_match_len_model = Lm_init, eb_rep_len_model = Lm_init,
                 eb_renc = renc, eb_reps = (\<lambda>i. 0), eb_state = 0, eb_member_finished = False \<rparr>
      in if \<not> ok1 then (False, eb)
         else if \<not> ok2 then (False, eb)
         else (True, LZeb_reset eb member_size))"

definition LZeb_member_finished :: "LZ_encoder_base \<Rightarrow> bool" where
  "LZeb_member_finished eb = (eb_member_finished eb \<and> Cb_empty (re_cb (eb_renc eb)))"

definition LZeb_crc :: "LZ_encoder_base \<Rightarrow> 32 word" where
  "LZeb_crc eb = eb_crc eb XOR 0xFFFFFFFF"

section \<open>The two encoders\<close>

definition max_num_trials :: nat where "max_num_trials = 2 ^ 13"
definition num_prev_positions3 :: nat where "num_prev_positions3 = 2 ^ 16"
definition num_prev_positions2 :: nat where "num_prev_positions2 = 2 ^ 10"

text \<open>\<^verbatim>\<open>struct LZ_encoder\<close> (the optimal encoder) and \<^verbatim>\<open>struct FLZ_encoder\<close> (the fast one).
  The price tables, the match pairs and the trellis of the optimal encoder are not part of
  this model: the functions embedded here never read them.\<close>

record LZ_encoder =
  e_eb :: LZ_encoder_base
  e_cycles :: int
  e_match_len_limit :: int
  e_pending_num_pairs :: int
  e_num_dis_slots :: int
  e_price_counter :: int
  e_dis_price_counter :: int
  e_align_price_counter :: int
  e_been_flushed :: bool

record FLZ_encoder =
  fe_eb :: LZ_encoder_base
  fe_key4 :: "32 word"

definition LZe_init :: "bool \<Rightarrow> int \<Rightarrow> int \<Rightarrow> 64 word \<Rightarrow> bool \<times> LZ_encoder" where
  "LZe_init mem_ok dict_size len_limit member_size =
     (let before_size = int max_num_trials;
          after_size = int max_num_trials + 2 * int max_match_len + 1;
          dict_factor = 2;
          num_prev_positions23 = int num_prev_positions2 + int num_prev_positions3;
          pos_array_factor = 2;
          min_free_bytes = 2 * of_nat max_num_trials;
          (ok, eb) = LZeb_init mem_ok before_size dict_size after_size dict_factor
                       num_prev_positions23 pos_array_factor min_free_bytes member_size
      in (ok,
          \<lparr> e_eb = eb,
            e_cycles = (if len_limit < int max_match_len then 16 + len_limit div 2 else 256),
            e_match_len_limit = len_limit,
            e_pending_num_pairs = 0,
            e_num_dis_slots = 2 * int (real_bits (word_of_int (mb_dictionary_size (eb_mb eb) - 1))),
            e_price_counter = 0, e_dis_price_counter = 0, e_align_price_counter = 0,
            e_been_flushed = False \<rparr>))"

definition FLZe_init :: "bool \<Rightarrow> 64 word \<Rightarrow> bool \<times> FLZ_encoder" where
  "FLZe_init mem_ok member_size =
     (let before_size = 0;
          dict_size = 65536;
          after_size = int max_match_len;
          dict_factor = 16;
          min_free_bytes = of_nat max_marker_size;
          num_prev_positions23 = 0;
          pos_array_factor = 1;
          (ok, eb) = LZeb_init mem_ok before_size dict_size after_size dict_factor
                       num_prev_positions23 pos_array_factor min_free_bytes member_size
      in (ok, \<lparr> fe_eb = eb, fe_key4 = 0 \<rparr>))"

section \<open>The public interface\<close>

datatype LZ_Errno =
    LZ_ok | LZ_bad_argument | LZ_mem_error | LZ_sequence_error | LZ_header_error
  | LZ_unexpected_eof | LZ_data_error | LZ_library_error

subsection \<open>Compression\<close>

text \<open>\<^verbatim>\<open>struct LZ_Encoder\<close>. The pointer \<^verbatim>\<open>lz_encoder_base\<close> points into whichever of
  \<^verbatim>\<open>lz_encoder\<close> and \<^verbatim>\<open>flz_encoder\<close> was allocated; it is read with \<open>enc_base\<close> and
  written with \<open>enc_map_base\<close>.\<close>

record LZ_Encoder =
  enc_partial_in_size :: "64 word"
  enc_partial_out_size :: "64 word"
  enc_lz_encoder :: "LZ_encoder option"
  enc_flz_encoder :: "FLZ_encoder option"
  enc_lz_errno :: LZ_Errno
  enc_fatal :: bool



definition LZ_Encoder_init :: LZ_Encoder where
  "LZ_Encoder_init =
     \<lparr> enc_partial_in_size = 0, enc_partial_out_size = 0, enc_lz_encoder = None,
       enc_flz_encoder = None, enc_lz_errno = LZ_ok, enc_fatal = False \<rparr>"


text \<open>\<^verbatim>\<open>LZ_compress_open\<close>. \<open>mem_e\<close> is whether the \<^verbatim>\<open>malloc\<close> of the
  \<^verbatim>\<open>LZ_Encoder\<close> succeeds (\<open>None\<close> is the null pointer returned otherwise); \<open>mem_ok\<close> is
  whether the allocations of the chosen encoder succeed. The local \<^verbatim>\<open>header\<close> is
  written at index 5 only, and read there.\<close>

definition LZ_compress_open :: "bool \<Rightarrow> bool \<Rightarrow> 32 word \<Rightarrow> 32 word \<Rightarrow> 64 word \<Rightarrow> LZ_Encoder option" where
  "LZ_compress_open mem_e mem_ok dictionary_size match_len_limit member_size =
     (if \<not> mem_e then None
      else
        let e = LZ_Encoder_init;
            (ok, header) = Lh_set_dictionary_size (replicate 6 0) dictionary_size
        in if \<not> ok \<or> match_len_limit <s of_nat min_match_len_limit \<or>
              of_nat max_match_len <s match_len_limit \<or>
              member_size < ucast min_dictionary_size
           then Some (e\<lparr> enc_lz_errno := LZ_bad_argument, enc_fatal := True \<rparr>)
           else if dictionary_size = 65535 \<and> match_len_limit = 16
           then
             (case FLZe_init mem_ok member_size of
                (True, fe) \<Rightarrow> Some (e\<lparr> enc_flz_encoder := Some fe \<rparr>)
              | (False, fe) \<Rightarrow> Some (e\<lparr> enc_lz_errno := LZ_mem_error, enc_fatal := True \<rparr>))
           else
             (case LZe_init mem_ok (sint (Lh_get_dictionary_size header)) (sint match_len_limit)
                     member_size of
                (True, le) \<Rightarrow> Some (e\<lparr> enc_lz_encoder := Some le \<rparr>)
              | (False, le) \<Rightarrow> Some (e\<lparr> enc_lz_errno := LZ_mem_error, enc_fatal := True \<rparr>)))"




definition LZ_compress_errno :: "LZ_Encoder \<Rightarrow> LZ_Errno" where
  "LZ_compress_errno e = enc_lz_errno e"

subsection \<open>Decompression\<close>

record LZ_Decoder =
  dec_partial_in_size :: "64 word"
  dec_partial_out_size :: "64 word"
  dec_rdec :: "Range_decoder option"
  dec_lz_decoder :: "LZ_decoder option"
  dec_lz_errno :: LZ_Errno
  dec_member_header :: Lzip_header
  dec_fatal :: bool
  dec_first_header :: bool
  dec_seeking :: bool

definition LZ_Decoder_init :: LZ_Decoder where
  "LZ_Decoder_init =
     \<lparr> dec_partial_in_size = 0, dec_partial_out_size = 0, dec_rdec = None,
       dec_lz_decoder = None, dec_lz_errno = LZ_ok, dec_member_header = replicate 6 0,
       dec_fatal = False, dec_first_header = True, dec_seeking = False \<rparr>"

definition LZ_decompress_open :: "bool \<Rightarrow> bool \<Rightarrow> LZ_Decoder option" where
  "LZ_decompress_open mem_d mem_ok =
     (if \<not> mem_d then None
      else
        (case Rd_init mem_ok of
           (True, rdec) \<Rightarrow> Some (LZ_Decoder_init\<lparr> dec_rdec := Some rdec \<rparr>)
         | (False, rdec) \<Rightarrow> Some (LZ_Decoder_init\<lparr> dec_lz_errno := LZ_mem_error, dec_fatal := True \<rparr>)))"

definition LZ_decompress_finish :: "LZ_Decoder \<Rightarrow> int \<times> LZ_Decoder" where
  "LZ_decompress_finish d =
     (case dec_rdec d of
        None \<Rightarrow> (- 1, d\<lparr> dec_lz_errno := LZ_bad_argument \<rparr>)
      | Some rdec \<Rightarrow>
          if dec_fatal d then (- 1, d)
          else if dec_seeking d
          then (let (n, r) = Rd_purge rdec
                in (0, d\<lparr> dec_seeking := False, dec_partial_in_size := dec_partial_in_size d + n,
                          dec_rdec := Some r \<rparr>))
          else (0, d\<lparr> dec_rdec := Some (Rd_finish rdec) \<rparr>))"

text \<open>The part of \<^verbatim>\<open>LZ_decompress_read\<close> that runs when there is no LZ decoder: it reads and
  checks the next member header. \<open>Inl\<close> is an early \<^verbatim>\<open>return\<close> with its value; \<open>Inr\<close>
  goes on to \<^verbatim>\<open>LZd_decode_member\<close> with a fresh LZ decoder and a pending reload.\<close>

definition LZ_decompress_read_header ::
  "bool \<Rightarrow> LZ_Decoder \<Rightarrow> Range_decoder \<Rightarrow> (32 word \<times> LZ_Decoder) + LZ_Decoder" where
  "LZ_decompress_read_header mem_ok d rdec =
     (let d1 = d\<lparr> dec_partial_in_size := dec_partial_in_size d + rd_member_position rdec \<rparr>;
          r1 = rdec\<lparr> rd_member_position := 0 \<rparr>
      in if Rd_available_bytes r1 < of_nat Lh_size + 5 \<and> \<not> rd_at_stream_end r1
         then Inl (0, d1\<lparr> dec_rdec := Some r1 \<rparr>)
         else if Rd_finished r1 \<and> \<not> dec_first_header d1
         then Inl (0, d1\<lparr> dec_rdec := Some r1 \<rparr>)
         else
           let (rd, bytes, r2) = Rd_read_data r1 (of_nat Lh_size);
               header = bytes @ drop (length bytes) (dec_member_header d1);
               d2 = d1\<lparr> dec_member_header := header, dec_rdec := Some r2 \<rparr>
           in if rd <s of_nat Lh_size \<or> Rd_finished r2
              then Inl (- 1,
                        d2\<lparr> dec_lz_errno :=
                               (if rd \<le>s 0 \<or> Lh_verify_prefix header (unat rd)
                                then LZ_unexpected_eof else LZ_header_error),
                             dec_fatal := True \<rparr>)
              else if \<not> Lh_verify_magic header
              then
                (let (ok, r3) = Rd_unread_data r2 rd
                 in Inl (- 1,
                         d2\<lparr> dec_rdec := Some r3,
                              dec_lz_errno :=
                                (if ok
                                 then (if dec_first_header d2 \<or> \<not> Lh_verify_corrupt header
                                       then LZ_header_error else LZ_data_error)
                                 else LZ_library_error),
                              dec_fatal := True \<rparr>))
              else if \<not> Lh_verify_version header \<or> \<not> isvalid_ds (Lh_get_dictionary_size header)
              then
                (let (ok, r3) = Rd_unread_data r2 (1 + of_bool (\<not> Lh_verify_version header))
                 in Inl (- 1,
                         d2\<lparr> dec_rdec := Some r3,
                              dec_lz_errno := (if ok then LZ_data_error else LZ_library_error),
                              dec_fatal := True \<rparr>))
              else
                let d3 = d2\<lparr> dec_first_header := False \<rparr>
                in if Rd_available_bytes r2 < 5
                   then Inl (- 1,
                             d3\<lparr> dec_rdec :=
                                    Some (r2\<lparr> rd_member_position :=
                                                rd_member_position r2 + ucast (Cb_used_bytes (rd_cb r2)),
                                              rd_cb := Cb_reset (rd_cb r2) \<rparr>),
                                  dec_lz_errno := LZ_unexpected_eof, dec_fatal := True \<rparr>)
                   else
                     (case LZd_init mem_ok (Lh_get_dictionary_size header) of
                        (False, lzd) \<Rightarrow>
                          Inl (- 1, d3\<lparr> dec_lz_decoder := None, dec_lz_errno := LZ_mem_error,
                                         dec_fatal := True \<rparr>)
                      | (True, lzd) \<Rightarrow>
                          Inr (d3\<lparr> dec_lz_decoder := Some lzd,
                                    dec_rdec := Some (r2\<lparr> rd_reload_pending := True \<rparr>) \<rparr>)))"

text \<open>The label \<^verbatim>\<open>get_data\<close>: \<^verbatim>\<open>return Cb_read_data (&d->lz_decoder->cb, buffer, size)\<close>.\<close>

definition LZ_decompress_get_data ::
  "LZ_Decoder \<Rightarrow> LZ_decoder \<Rightarrow> 32 word \<Rightarrow> 32 word \<times> 8 word list \<times> LZ_Decoder" where
  "LZ_decompress_get_data d lzd sz =
     (let (n, out, cb) = Cb_read_data (lzd_cb lzd) sz
      in (n, out, d\<lparr> dec_lz_decoder := Some (lzd\<lparr> lzd_cb := cb \<rparr>) \<rparr>))"

text \<open>What \<^verbatim>\<open>LZ_decompress_read\<close> does with the status of \<^verbatim>\<open>LZd_decode_member\<close>: a status
  other than 0 sets the error code and \<^verbatim>\<open>fatal\<close>, and the call returns \<open>-1\<close> once the
  dictionary holds no more decoded bytes.\<close>

definition LZ_decompress_read_result ::
  "LZ_Decoder \<Rightarrow> nat \<times> LZ_decoder \<times> Range_decoder \<Rightarrow> 32 word \<Rightarrow> 32 word \<times> 8 word list \<times> LZ_Decoder" where
  "LZ_decompress_read_result d = (\<lambda>(result, lzd, rdec) sz.
     let d1 = d\<lparr> dec_lz_decoder := Some lzd, dec_rdec := Some rdec \<rparr>
     in if result \<noteq> 0
        then
          let d2 =
                (if result = 2
                 then d1\<lparr> dec_rdec :=
                            Some (rdec\<lparr> rd_member_position :=
                                          rd_member_position rdec + ucast (Cb_used_bytes (rd_cb rdec)),
                                        rd_cb := Cb_reset (rd_cb rdec) \<rparr>),
                          dec_lz_errno := LZ_unexpected_eof \<rparr>
                 else if result = 5 then d1\<lparr> dec_lz_errno := LZ_library_error \<rparr>
                 else d1\<lparr> dec_lz_errno := LZ_data_error \<rparr>);
              d3 = d2\<lparr> dec_fatal := True \<rparr>
          in if Cb_empty (lzd_cb lzd) then (- 1, [], d3)
             else LZ_decompress_get_data d3 lzd sz
        else LZ_decompress_get_data d1 lzd sz)"

text \<open>\<^verbatim>\<open>LZ_decompress_read\<close> returns its \<^verbatim>\<open>int\<close> result, the bytes stored in
  \<^verbatim>\<open>buffer\<close> and the decoder; \<open>None\<close> is a call whose decoding loop does not return.\<close>

definition LZ_decompress_read ::
  "bool \<Rightarrow> LZ_Decoder \<Rightarrow> 32 word \<Rightarrow> (32 word \<times> 8 word list \<times> LZ_Decoder) option" where
  "LZ_decompress_read mem_ok d sz =
     (case dec_rdec d of
        None \<Rightarrow> Some (- 1, [], d\<lparr> dec_lz_errno := LZ_bad_argument \<rparr>)
      | Some rdec0 \<Rightarrow>
          if sz <s 0 then Some (0, [], d)
          else if dec_fatal d
          then (case dec_lz_decoder d of
                  Some lzd \<Rightarrow>
                    if \<not> Cb_empty (lzd_cb lzd) then Some (LZ_decompress_get_data d lzd sz)
                    else Some (- 1, [], d)
                | None \<Rightarrow> Some (- 1, [], d))
          else if dec_seeking d then Some (0, [], d)
          else
            let d1 = (case dec_lz_decoder d of
                        Some lzd \<Rightarrow>
                          if LZd_member_finished lzd
                          then d\<lparr> dec_partial_out_size := dec_partial_out_size d + LZd_data_position lzd,
                                  dec_lz_decoder := None \<rparr>
                          else d
                      | None \<Rightarrow> d)
            in (case (case dec_lz_decoder d1 of
                        None \<Rightarrow> LZ_decompress_read_header mem_ok d1 rdec0
                      | Some lzd \<Rightarrow> Inr d1) of
                  Inl (res, d2) \<Rightarrow> Some (res, [], d2)
                | Inr d2 \<Rightarrow>
                    (case (dec_lz_decoder d2, dec_rdec d2) of
                       (Some lzd, Some rdec) \<Rightarrow>
                         (case LZd_decode_member lzd rdec of
                            None \<Rightarrow> None
                          | Some res \<Rightarrow> Some (LZ_decompress_read_result d2 res sz))
                     | _ \<Rightarrow> Some (- 1, [], d2))))"

definition LZ_decompress_errno :: "LZ_Decoder \<Rightarrow> LZ_Errno" where
  "LZ_decompress_errno d = dec_lz_errno d"

definition LZ_decompress_data_crc :: "LZ_Decoder \<Rightarrow> 32 word" where
  "LZ_decompress_data_crc d =
     (case (dec_rdec d, dec_lz_decoder d) of (Some rdec, Some lzd) \<Rightarrow> LZd_crc lzd | _ \<Rightarrow> 0)"

section \<open>Definitions used to state the properties\<close>

text \<open>The update rule of a bit model as the specification words it, on natural numbers:
  on bit 0, \<open>p += (2048 - p) >> 5\<close>; on bit 1, \<open>p -= p >> 5\<close>.\<close>

definition spec_Bm_update :: "nat \<Rightarrow> nat \<Rightarrow> nat" where
  "spec_Bm_update p b = (if b = 0 then p + (2048 - p) div 32 else p - p div 32)"

text \<open>The values a bit model can take: it is initialised by \<^verbatim>\<open>Bm_init\<close> and afterwards
  written only by \<^verbatim>\<open>Re_encode_bit\<close> and \<^verbatim>\<open>Rd_decode_bit\<close>, whatever the state of the
  coder and the bit coded.\<close>

inductive_set Bm_reachable :: "Bit_model set" where
  Bm_reachable_init: "Bm_init \<in> Bm_reachable"
| Bm_reachable_encode: "p \<in> Bm_reachable \<Longrightarrow> snd (Re_encode_bit renc p b) \<in> Bm_reachable"
| Bm_reachable_decode: "p \<in> Bm_reachable \<Longrightarrow> snd (snd (Rd_decode_bit rdec p)) \<in> Bm_reachable"

text \<open>The states of a range encoder: it starts from a successful \<^verbatim>\<open>Re_init\<close> and is
  changed by \<^verbatim>\<open>Re_reset\<close>, \<^verbatim>\<open>Re_flush\<close>, \<^verbatim>\<open>Re_read_data\<close>, \<^verbatim>\<open>Re_encode_bit\<close> on a
  reachable bit model, and by the iterations of the loop of \<^verbatim>\<open>Re_encode\<close>;
  \<^verbatim>\<open>LZ_compress_finish\<close> rewrites the header and a byte of the output buffer.\<close>

inductive_set Re_reachable :: "Range_encoder set" where
  Re_reachable_init:
    "Re_init True dictionary_size min_free_bytes = (True, renc) \<Longrightarrow> renc \<in> Re_reachable"
| Re_reachable_reset: "renc \<in> Re_reachable \<Longrightarrow> Re_reset renc dictionary_size \<in> Re_reachable"
| Re_reachable_flush: "renc \<in> Re_reachable \<Longrightarrow> Re_flush renc \<in> Re_reachable"
| Re_reachable_read: "renc \<in> Re_reachable \<Longrightarrow> snd (snd (Re_read_data renc n)) \<in> Re_reachable"
| Re_reachable_bit:
    "renc \<in> Re_reachable \<Longrightarrow> p \<in> Bm_reachable \<Longrightarrow> fst (Re_encode_bit renc p b) \<in> Re_reachable"
| Re_reachable_direct: "renc \<in> Re_reachable \<Longrightarrow> Re_encode_iter renc b \<in> Re_reachable"
| Re_reachable_header:
    "renc \<in> Re_reachable \<Longrightarrow>
     renc\<lparr> re_header := h, re_cb := (re_cb renc)\<lparr> cb_buffer := buf \<rparr> \<rparr> \<in> Re_reachable"

text \<open>The states of a range decoder: it starts from a successful \<^verbatim>\<open>Rd_init\<close> and is
  changed by \<^verbatim>\<open>Rd_try_reload\<close>, \<^verbatim>\<open>Rd_normalize\<close>, \<^verbatim>\<open>Rd_decode_bit\<close> on a reachable bit
  model, and by the iterations of the loop of \<^verbatim>\<open>Rd_decode\<close>; everything else
  (\<^verbatim>\<open>Rd_write_data\<close>, \<^verbatim>\<open>Rd_read_data\<close>, \<^verbatim>\<open>Rd_unread_data\<close>, \<^verbatim>\<open>Rd_finish\<close>,
  \<^verbatim>\<open>Rd_reset\<close>, \<^verbatim>\<open>Rd_purge\<close>, \<^verbatim>\<open>Rd_find_header\<close> and the assignments in
  \<^verbatim>\<open>LZ_decompress_read\<close> and \<^verbatim>\<open>LZd_decode_member\<close>) writes only the input buffer, the
  member position and the two flags.\<close>

inductive_set Rd_reachable :: "Range_decoder set" where
  Rd_reachable_init: "Rd_init True = (True, rdec) \<Longrightarrow> rdec \<in> Rd_reachable"
| Rd_reachable_reload: "rdec \<in> Rd_reachable \<Longrightarrow> snd (Rd_try_reload rdec) \<in> Rd_reachable"
| Rd_reachable_normalize: "rdec \<in> Rd_reachable \<Longrightarrow> Rd_normalize rdec \<in> Rd_reachable"
| Rd_reachable_bit:
    "rdec \<in> Rd_reachable \<Longrightarrow> p \<in> Bm_reachable \<Longrightarrow> fst (snd (Rd_decode_bit rdec p)) \<in> Rd_reachable"
| Rd_reachable_direct: "rdec \<in> Rd_reachable \<Longrightarrow> snd (Rd_decode_iter (symbol, rdec)) \<in> Rd_reachable"
| Rd_reachable_other:
    "rdec \<in> Rd_reachable \<Longrightarrow>
     rdec\<lparr> rd_cb := cb, rd_member_position := mpos, rd_at_stream_end := ase,
           rd_reload_pending := rp \<rparr> \<in> Rd_reachable"



text \<open>The dictionary size the specification reads from the coded byte \<open>b\<close>:
  \<open>(1 << (b & 0x1F)) - (b >> 5) * (1 << (b & 0x1F)) / 16\<close>.\<close>

definition spec_coded_ds :: "nat \<Rightarrow> nat" where
  "spec_coded_ds b = 2 ^ (b mod 32) - (b div 32) * 2 ^ (b mod 32) div 16"

text \<open>The valid arguments of \<^verbatim>\<open>LZ_compress_open\<close> as the specification words them.\<close>

definition spec_valid_args :: "32 word \<Rightarrow> 32 word \<Rightarrow> 64 word \<Rightarrow> bool" where
  "spec_valid_args dictionary_size match_len_limit member_size =
     (4096 \<le> sint dictionary_size \<and> sint dictionary_size \<le> 2 ^ 29 \<and>
      5 \<le> sint match_len_limit \<and> sint match_len_limit \<le> 273 \<and>
      4096 \<le> unat member_size)"


section \<open>Bit models\<close>

lemma word32_bit31:
  fixes w :: "32 word"
  assumes "w < 0x80000000"
  shows "\<not> bit w 31"
proof -
  have "unat w < 2 ^ 31" using assms by (simp add: word_less_nat_alt)
  then have "unat w div 2 ^ 31 = 0" by simp
  then have "\<not> bit (unat w) 31" unfolding bit_iff_odd by simp
  then show ?thesis by (simp add: bit_unsigned_iff)
qed

lemma signed_drop_bit_small:
  fixes w :: "32 word"
  assumes "w < 0x80000000"
  shows "signed_drop_bit n w = drop_bit n w"
  by (rule bit_word_eqI)
     (auto simp: bit_signed_drop_bit_iff bit_drop_bit_eq word32_bit31[OF assms] dest: bit_imp_le_length)

lemma Bm_update0:
  fixes p :: "32 word"
  assumes "p \<le> 2048"
  shows "unat (p + signed_drop_bit 5 (2048 - p)) = unat p + (2048 - unat p) div 32"
proof -
  have a: "unat p \<le> 2048" using assms by (simp add: word_le_nat_alt)
  have b: "unat (2048 - p) = 2048 - unat p" using assms by (simp add: unat_sub)
  have c: "2048 - p < 0x80000000" using a b by (simp add: word_less_nat_alt)
  have d: "unat (drop_bit 5 (2048 - p)) = (2048 - unat p) div 32"
    by (simp add: drop_bit_eq_div unat_div b)
  show ?thesis
    using a d by (simp add: signed_drop_bit_small[OF c] unat_word_ariths)
qed

lemma Bm_update1:
  fixes p :: "32 word"
  assumes "p \<le> 2048"
  shows "unat (p - signed_drop_bit 5 p) = unat p - unat p div 32"
proof -
  have a: "unat p \<le> 2048" using assms by (simp add: word_le_nat_alt)
  have c: "p < 0x80000000" using a by (simp add: word_less_nat_alt)
  have d: "unat (drop_bit 5 p) = unat p div 32"
    by (simp add: drop_bit_eq_div unat_div)
  have e: "drop_bit 5 p \<le> p" using d by (simp add: word_le_nat_alt)
  show ?thesis
    using d e by (simp add: signed_drop_bit_small[OF c] unat_sub)
qed

lemma Re_encode_bit_probability:
  "snd (Re_encode_bit renc p b) =
     (if b then p - signed_drop_bit 5 p else p + signed_drop_bit 5 (2048 - p))"
  by (simp add: Re_encode_bit_def Let_def bit_model_move_bits_def bit_model_total_def
      bit_model_total_bits_def split: prod.splits)

lemma Rd_decode_bit_probability:
  "snd (snd (Rd_decode_bit rdec p)) =
     (if fst (Rd_decode_bit rdec p) = 0 then p + signed_drop_bit 5 (2048 - p)
      else p - signed_drop_bit 5 p)"
  by (simp add: Rd_decode_bit_def Let_def bit_model_move_bits_def bit_model_total_def
      bit_model_total_bits_def)

lemma Rd_decode_bit_cases:
  "fst (Rd_decode_bit rdec p) = 0 \<or> fst (Rd_decode_bit rdec p) = 1"
  by (simp add: Rd_decode_bit_def Let_def)

text \<open>
  Claim C3. For every 11-bit probability \<open>p\<close> and every bit \<open>b\<close>, the probability that
  \<^verbatim>\<open>Re_encode_bit\<close> stores after coding \<open>b\<close> is \<open>p + ((2048 - p) >> 5)\<close> when \<open>b = 0\<close> and
  \<open>p - (p >> 5)\<close> when \<open>b = 1\<close>; the probability that \<^verbatim>\<open>Rd_decode_bit\<close> stores is the same
  function of \<open>p\<close> and of the bit it decodes; and the two functions store the same value for
  the same \<open>p\<close> and bit, whatever the states of the two coders.
\<close>

theorem bit_model_update_rule:
  fixes p :: Bit_model
  assumes "unat p < 2048"
  shows "unat (snd (Re_encode_bit renc p b)) = spec_Bm_update (unat p) (if b then 1 else 0) \<and>
         unat (snd (snd (Rd_decode_bit rdec p))) =
           spec_Bm_update (unat p) (unat (fst (Rd_decode_bit rdec p))) \<and>
         snd (snd (Rd_decode_bit rdec p)) =
           snd (Re_encode_bit renc p (fst (Rd_decode_bit rdec p) \<noteq> 0))"
proof -
  have le: "p \<le> 2048" using assms by (simp add: word_le_nat_alt)
  have enc: "unat (snd (Re_encode_bit renc p b)) = spec_Bm_update (unat p) (if b then 1 else 0)"
    by (simp add: Re_encode_bit_probability spec_Bm_update_def Bm_update0[OF le] Bm_update1[OF le])
  have dec: "unat (snd (snd (Rd_decode_bit rdec p))) =
           spec_Bm_update (unat p) (unat (fst (Rd_decode_bit rdec p)))"
    using Rd_decode_bit_cases[of rdec p]
    by (auto simp: Rd_decode_bit_probability spec_Bm_update_def Bm_update0[OF le] Bm_update1[OF le])
  have same: "snd (snd (Rd_decode_bit rdec p)) =
           snd (Re_encode_bit renc p (fst (Rd_decode_bit rdec p) \<noteq> 0))"
    by (simp add: Rd_decode_bit_probability Re_encode_bit_probability)
  from enc dec same show ?thesis by simp
qed

lemma Bm_reachable_bounds:
  assumes "p \<in> Bm_reachable"
  shows "31 \<le> unat p \<and> unat p \<le> 2017"
  using assms
proof (induction rule: Bm_reachable.induct)
  case Bm_reachable_init
  show ?case by (simp add: Bm_init_def bit_model_total_def bit_model_total_bits_def)
next
  case (Bm_reachable_encode p renc b)
  then have le: "p \<le> 2048" by (simp add: word_le_nat_alt)
  from Bm_reachable_encode show ?case
    by (simp add: Re_encode_bit_probability Bm_update0[OF le] Bm_update1[OF le]) arith
next
  case (Bm_reachable_decode p rdec)
  then have le: "p \<le> 2048" by (simp add: word_le_nat_alt)
  from Bm_reachable_decode show ?case
    by (simp add: Rd_decode_bit_probability Bm_update0[OF le] Bm_update1[OF le]) arith
qed

lemma bound_facts:
  fixes rng p :: "32 word"
  assumes p: "31 \<le> unat p" "unat p \<le> 2017" and r: "2048 \<le> rng"
  shows "unat (drop_bit 11 rng * p) = (unat rng div 2048) * unat p"
    and "0 < drop_bit 11 rng * p" and "drop_bit 11 rng * p < rng"
    and "31 * (unat rng div 2048) \<le> unat (rng - drop_bit 11 rng * p)"
proof -
  let ?k = "unat rng div 2048"
  have k: "unat (drop_bit 11 rng) = ?k" by (simp add: drop_bit_eq_div unat_div)
  have rlt: "unat rng < 2 ^ 32" using unsigned_less[of rng] by simp
  then have klt: "?k < 2 ^ 21" by simp
  have kpos: "1 \<le> ?k" using r by (simp add: word_le_nat_alt) 
  have "?k * unat p \<le> ?k * 2017" using p by simp
  also have "\<dots> < 2 ^ 21 * 2048" using klt by simp
  finally have nov: "?k * unat p < 2 ^ 32" by simp
  show m: "unat (drop_bit 11 rng * p) = ?k * unat p"
    using nov by (simp add: unat_word_ariths k)
  have pos: "0 < ?k * unat p" using kpos p by simp
  show "0 < drop_bit 11 rng * p" using pos m by (simp add: word_less_nat_alt)
  have "?k * unat p + 31 * ?k \<le> ?k * 2017 + 31 * ?k" using p by simp
  also have "\<dots> = ?k * 2048" by simp
  also have "\<dots> \<le> unat rng" by simp
  finally have lt: "?k * unat p + 31 * ?k \<le> unat rng" .
  then have "?k * unat p < unat rng" using kpos by simp
  then show l: "drop_bit 11 rng * p < rng" using m by (simp add: word_less_nat_alt)
  then have "unat (rng - drop_bit 11 rng * p) = unat rng - ?k * unat p"
    using m by (simp add: unat_sub word_le_nat_alt word_less_nat_alt)
  then show "31 * (unat rng div 2048) \<le> unat (rng - drop_bit 11 rng * p)" using lt by simp
qed

text \<open>
  Claim C10. A bit model, initialised to 1024 and written only by the two update rules, stays
  in the interval from 31 to 2017; hence for every range above \<open>0x00FFFFFF\<close> the bound
  \<open>(range >> 11) * probability\<close> is neither 0 nor as large as the range.
\<close>

theorem bit_model_stays_in_range:
  assumes "p \<in> Bm_reachable"
  shows "31 \<le> unat p \<and> unat p \<le> 2017 \<and>
         (\<forall>rng :: 32 word. 0x00FFFFFF < rng \<longrightarrow>
            0 < drop_bit bit_model_total_bits rng * p \<and>
            drop_bit bit_model_total_bits rng * p < rng)"
proof -
  have b: "31 \<le> unat p" "unat p \<le> 2017" using Bm_reachable_bounds[OF assms] by simp_all
  have "0 < drop_bit 11 rng * p \<and> drop_bit 11 rng * p < rng" if "0x00FFFFFF < rng" for rng :: "32 word"
  proof -
    have "2048 \<le> rng" using that by (simp add: word_le_nat_alt word_less_nat_alt)
    then show ?thesis using bound_facts(2,3)[OF b] by simp
  qed
  then show ?thesis using b by (simp add: bit_model_total_bits_def)
qed

theorem bit_model_stays_in_range_witness:
  "Bm_init \<in> Bm_reachable \<and> unat Bm_init = 1024 \<and>
   0 < drop_bit bit_model_total_bits 0xFFFFFFFF * Bm_init \<and>
   drop_bit bit_model_total_bits 0xFFFFFFFF * Bm_init < 0xFFFFFFFF"
proof -
  have r: "Bm_init \<in> Bm_reachable" by (rule Bm_reachable_init)
  have "(0x00FFFFFF :: 32 word) < 0xFFFFFFFF \<longrightarrow>
          0 < drop_bit bit_model_total_bits 0xFFFFFFFF * Bm_init \<and>
          drop_bit bit_model_total_bits 0xFFFFFFFF * Bm_init < 0xFFFFFFFF"
    using bit_model_stays_in_range[OF r] by blast
  then have a: "0 < drop_bit bit_model_total_bits 0xFFFFFFFF * Bm_init \<and>
          drop_bit bit_model_total_bits 0xFFFFFFFF * Bm_init < 0xFFFFFFFF" by simp
  have b: "unat Bm_init = 1024"
    by (simp add: Bm_init_def bit_model_total_def bit_model_total_bits_def)
  show ?thesis using r a b by blast
qed

theorem bit_model_update_rule_witness:
  "unat (1024 :: Bit_model) < 2048 \<and>
   unat (snd (Re_encode_bit (snd (Re_init True 4096 16)) 1024 False)) = 1056 \<and>
   unat (snd (Re_encode_bit (snd (Re_init True 4096 16)) 1024 True)) = 992"
  using bit_model_update_rule[of 1024 "snd (Re_init True 4096 16)" False]
        bit_model_update_rule[of 1024 "snd (Re_init True 4096 16)" True]
  by (simp add: spec_Bm_update_def)

section \<open>CRC32\<close>











section \<open>Coded dictionary size\<close>

lemma unat_and_31:
  fixes b :: "8 word"
  shows "unat (b AND 0x1F) = unat b mod 32"
proof -
  have "b AND 0x1F = take_bit 5 b" by (simp add: take_bit_eq_mask mask_eq_exp_minus_1)
  also have "\<dots> = b mod 32" by (simp add: take_bit_eq_mod)
  finally show ?thesis by (simp add: unat_mod)
qed

lemma unat_high3:
  fixes b :: "8 word"
  shows "unat ((ucast (drop_bit 5 b) :: 32 word) AND 7) = unat b div 32"
proof -
  have lt: "unat b < 256" using unsigned_less[of b] by simp
  have a: "unat (ucast (drop_bit 5 b) :: 32 word) = unat b div 32"
    using lt by (simp add: unsigned_ucast_eq drop_bit_eq_div take_bit_eq_mod unat_div) 
  have "(ucast (drop_bit 5 b) :: 32 word) AND 7 = take_bit 3 (ucast (drop_bit 5 b) :: 32 word)"
    by (simp add: take_bit_eq_mask mask_eq_exp_minus_1)
  also have "\<dots> = (ucast (drop_bit 5 b) :: 32 word) mod 8" by (simp add: take_bit_eq_mod)
  finally have "unat ((ucast (drop_bit 5 b) :: 32 word) AND 7) = (unat b div 32) mod 8"
    by (simp add: unat_mod a)
  also have "\<dots> = unat b div 32" using lt by simp
  finally show ?thesis .
qed

lemma len32: "LENGTH(32) = 32" by simp

lemma pow2_lt_32: "k < 32 \<Longrightarrow> (2::nat) ^ k < 2 ^ 32"
  by (rule power_strict_increasing) simp_all

lemma unat_push_bit_1:
  assumes "k < 32"
  shows "unat (push_bit k (1 :: 32 word)) = 2 ^ k"
proof -
  have lt: "(2::nat) ^ k < 2 ^ 32" using assms by (rule pow2_lt_32)
  have "push_bit k (1 :: 32 word) = of_nat (2 ^ k)" by (simp add: push_bit_eq_mult)
  then have "unat (push_bit k (1 :: 32 word)) = 2 ^ k mod 2 ^ 32" by (simp only: unat_of_nat len32)
  then show ?thesis using lt by simp
qed


lemma Lh_get_dictionary_size_nat:
  "unat (Lh_get_dictionary_size data) =
     (let b = unat (data ! 5); base = 2 ^ (b mod 32)
      in if base \<le> 4096 then base else base - (b div 32) * (base div 16))"
proof -
  let ?b = "unat (data ! 5)"
  let ?k = "?b mod 32"
  let ?sz = "push_bit (unat (data ! 5 AND 0x1F)) (1 :: 32 word)"
  let ?j = "(ucast (drop_bit 5 (data ! 5)) :: 32 word) AND 7"
  have k: "?k < 32" by simp
  have sz: "unat ?sz = 2 ^ ?k" by (simp only: unat_and_31 unat_push_bit_1[OF k])
  have szlt: "(2::nat) ^ ?k < 2 ^ 32" using k by (rule pow2_lt_32)
  have j: "unat ?j = ?b div 32" by (rule unat_high3)
  have "?b < 256" using unsigned_less[of "data ! 5", where 'a = nat] by simp
  then have jle: "?b div 32 \<le> 7" by simp
  have d16: "unat (?sz div 16) = 2 ^ ?k div 16" by (simp only: unat_div sz) simp
  have "(2 ^ ?k div 16) * (?b div 32) \<le> (2 ^ ?k div 16) * 7" using jle by simp
  also have "\<dots> \<le> (2 ^ ?k div 16) * 16" by simp
  also have "\<dots> \<le> 2 ^ ?k" by simp
  finally have ple: "(2 ^ ?k div 16) * (?b div 32) \<le> 2 ^ ?k" .
  then have plt: "(2 ^ ?k div 16) * (?b div 32) < 2 ^ 32" using szlt by simp
  have "unat (?sz div 16) * unat ?j < 2 ^ LENGTH(32)" using plt by (simp only: d16 j len32)
  then have "unat ((?sz div 16) * ?j) = unat (?sz div 16) * unat ?j"
    by (rule unat_mult_lem[THEN iffD1])
  then have prod: "unat ((?sz div 16) * ?j) = (2 ^ ?k div 16) * (?b div 32)"
    by (simp only: d16 j)
  have ple': "(?sz div 16) * ?j \<le> ?sz" using ple by (simp only: word_le_nat_alt prod sz)
  have sub: "unat (?sz - (?sz div 16) * ?j) = 2 ^ ?k - (2 ^ ?k div 16) * (?b div 32)"
    by (simp only: unat_sub[OF ple'] prod sz)
  have m: "unat min_dictionary_size = 4096"
    by (simp add: min_dictionary_size_def min_dictionary_bits_def)
  have cmp: "(?sz > min_dictionary_size) = (\<not> (2::nat) ^ ?k \<le> 4096)"
    by (simp only: word_less_nat_alt sz m not_le)
  show ?thesis
    unfolding Lh_get_dictionary_size_def Let_def cmp
    using sub sz by (simp only: mult.commute if_distrib[of unat] if_not_P if_P split: if_split) simp
qed


lemma spec_coded_ds_large:
  assumes "\<not> (2::nat) ^ (b mod 32) \<le> 4096"
  shows "spec_coded_ds b = 2 ^ (b mod 32) - (b div 32) * (2 ^ (b mod 32) div 16)"
proof -
  have "(2::nat) ^ 12 < 2 ^ (b mod 32)" using assms by simp
  then have "12 < b mod 32" by (simp only: power_strict_increasing_iff)
  then have "b mod 32 = 4 + (b mod 32 - 4)" by simp
  then obtain m where m: "b mod 32 = 4 + m" ..
  have "(b div 32) * 2 ^ (b mod 32) div 16 = (b div 32) * (2 ^ (b mod 32) div 16)"
    by (simp add: m power_add)
  then show ?thesis by (simp add: spec_coded_ds_def)
qed

text \<open>
  Claim C2, as the code has it. The dictionary size decoded from the coded byte \<open>b\<close> is the
  base \<open>1 << (b & 0x1F)\<close> itself when the base is at most 4096, whatever the high three bits
  are; for a larger base it is \<open>(1 << (b & 0x1F)) - (b >> 5) * (1 << (b & 0x1F)) / 16\<close>.
\<close>

theorem coded_dictionary_size:
  "unat (Lh_get_dictionary_size data) =
     (let b = unat (data ! 5); base = 2 ^ (b mod 32)
      in if base \<le> 4096 then base else spec_coded_ds b)"
  using spec_coded_ds_large[of "unat (data ! 5)"]
  by (simp add: Lh_get_dictionary_size_nat Let_def)

text \<open>
  Claim C2 as stated fails for the coded byte \<open>0x2C\<close> (base 4096, high bits 1): the code
  decodes 4096, the formula gives 3840.
\<close>

theorem coded_dictionary_size_counterexample:
  "Lh_get_dictionary_size [0x4C, 0x5A, 0x49, 0x50, 1, 0x2C] = 4096 \<and>
   spec_coded_ds (unat (0x2C :: 8 word)) = 3840 \<and>
   unat (Lh_get_dictionary_size [0x4C, 0x5A, 0x49, 0x50, 1, 0x2C])
     \<noteq> spec_coded_ds (unat ([0x4C, 0x5A, 0x49, 0x50, 1, 0x2C :: 8 word] ! 5))"
  by (simp add: Lh_get_dictionary_size_def min_dictionary_size_def min_dictionary_bits_def
      spec_coded_ds_def)

section \<open>Writing and reading the coded dictionary size\<close>

lemma real_bits_loop_le:
  "unat v < 2 ^ k \<Longrightarrow> real_bits_loop v bits \<le> bits + k"
proof (induction k arbitrary: v bits)
  case 0
  then have "v = 0" by (simp add: unat_eq_zero)
  then show ?case by (subst real_bits_loop.simps) simp
next
  case (Suc k)
  show ?case
  proof (cases "v > 0")
    case True
    have "unat (drop_bit 1 v) < 2 ^ k"
      using Suc.prems by (simp add: drop_bit_eq_div unat_div)
    then have "real_bits_loop (drop_bit 1 v) (Suc bits) \<le> Suc bits + k" by (rule Suc.IH)
    then show ?thesis using True by (subst real_bits_loop.simps) simp
  next
    case False
    then show ?thesis by (subst real_bits_loop.simps) simp
  qed
qed

lemma real_bits_loop_ge: "bits \<le> real_bits_loop v bits"
proof (induction v bits rule: real_bits_loop.induct)
  case (1 v bits)
  show ?case
  proof (cases "v > 0")
    case True
    from "1.IH"[OF True] show ?thesis using True by (subst real_bits_loop.simps) simp
  next
    case False
    then show ?thesis by (subst real_bits_loop.simps) simp
  qed
qed

lemma real_bits_loop_gt:
  "2 ^ k \<le> unat v \<Longrightarrow> bits + k < real_bits_loop v bits"
proof (induction k arbitrary: v bits)
  case 0
  then have pos: "v > 0" by (simp add: word_less_nat_alt)
  have "Suc bits \<le> real_bits_loop (drop_bit 1 v) (Suc bits)" by (rule real_bits_loop_ge)
  then show ?case using pos by (subst real_bits_loop.simps) simp
next
  case (Suc k)
  have "(0::nat) < 2 ^ Suc k" by simp
  then have "0 < unat v" using Suc.prems by linarith
  then have pos: "v > 0" by (simp add: word_less_nat_alt)
  have "2 ^ k \<le> unat (drop_bit 1 v)"
    using Suc.prems by (simp add: drop_bit_eq_div unat_div)
  then have "Suc bits + k < real_bits_loop (drop_bit 1 v) (Suc bits)" by (rule Suc.IH)
  then show ?case using pos by (subst real_bits_loop.simps) simp
qed


lemma real_bits_eq:
  assumes "2 ^ k \<le> unat v" and "unat v < 2 ^ Suc k"
  shows "real_bits v = Suc k"
  using real_bits_loop_le[OF assms(2), of 0] real_bits_loop_gt[OF assms(1), of 0]
  by (simp add: real_bits_def)

lemma real_bits_le: "unat v < 2 ^ k \<Longrightarrow> real_bits v \<le> k"
  using real_bits_loop_le[of v k 0] by (simp add: real_bits_def)

lemma real_bits_le_32: "real_bits v \<le> 32"
  using real_bits_le[of v 32] unsigned_less[of v, where 'a = nat] by simp


lemma Lh_set_dictionary_size_loop_result:
  "\<exists>i\<le>n. Lh_set_dictionary_size_loop n base_size fraction sz d5 =
            (if i = 0 then d5 else d5 OR push_bit 5 (of_nat i)) \<and>
          (0 < i \<longrightarrow> sz \<le> base_size - of_nat i * fraction)"
proof (induction n)
  case 0
  show ?case by simp
next
  case (Suc n)
  show ?case
  proof (cases "sz \<le> base_size - of_nat (Suc n) * fraction")
    case True
    then show ?thesis by (intro exI[of _ "Suc n"]) simp
  next
    case False
    from Suc obtain i where "i \<le> n"
      "Lh_set_dictionary_size_loop n base_size fraction sz d5 =
         (if i = 0 then d5 else d5 OR push_bit 5 (of_nat i))"
      "0 < i \<longrightarrow> sz \<le> base_size - of_nat i * fraction" by blast
    then show ?thesis using False by (intro exI[of _ i]) simp
  qed
qed

lemma unat_coded_byte:
  fixes d5 :: "8 word"
  assumes k: "unat d5 < 32" and i: "i \<le> 7"
  shows "unat (if i = 0 then d5 else d5 OR push_bit 5 (of_nat i)) = unat d5 + 32 * i"
proof -
  have t: "take_bit 5 d5 = d5" using k by (simp add: take_bit_eq_mod unat_mod word_eq_iff_unsigned[where ?'a = nat])
  have "take_bit 5 d5 AND push_bit 5 (of_nat i :: 8 word) = 0"
    by (rule bit_eqI) (auto simp: bit_simps)
  then have z: "d5 AND push_bit 5 (of_nat i :: 8 word) = 0" by (simp only: t)
  have o: "d5 OR push_bit 5 (of_nat i) = d5 + push_bit 5 (of_nat i)"
    using disjunctive_add_eq_or[OF z] by simp
  have "i < 256" using i by simp
  then have ui: "unat (of_nat i :: 8 word) = i" by (simp add: unat_of_nat)
  have p: "unat (push_bit 5 (of_nat i :: 8 word)) = 32 * i"
    using i by (simp add: push_bit_eq_mult unat_word_ariths ui)
  have "unat d5 + 32 * i < 256" using k i by simp
  then have "unat (d5 + push_bit 5 (of_nat i)) = unat d5 + 32 * i"
    by (simp add: unat_word_ariths p)
  then show ?thesis by (simp add: o)
qed


lemma isvalid_ds_nat: "isvalid_ds s = (4096 \<le> unat s \<and> unat s \<le> 2 ^ 29)"
  by (simp add: isvalid_ds_def min_dictionary_size_def max_dictionary_size_def
      min_dictionary_bits_def max_dictionary_bits_def word_le_nat_alt)

lemma fst_Lh_set_dictionary_size: "fst (Lh_set_dictionary_size data s) = isvalid_ds s"
  by (simp add: Lh_set_dictionary_size_def Let_def)


lemma Lh_set_dictionary_size_other:
  "j \<noteq> 5 \<Longrightarrow> snd (Lh_set_dictionary_size data s) ! j = data ! j"
  by (simp add: Lh_set_dictionary_size_def Let_def)

text \<open>For a valid size, the byte written by \<^verbatim>\<open>Lh_set_dictionary_size\<close> is the number of
  bits \<open>k\<close> of \<open>sz - 1\<close> plus 32 times a fraction count \<open>i\<close>, and the size it codes is not
  below \<open>sz\<close>.\<close>

lemma Lh_set_dictionary_size_byte:
  assumes v: "isvalid_ds s" and len: "5 < length data"
  shows "\<exists>k i. unat (snd (Lh_set_dictionary_size data s) ! 5) = k + 32 * i \<and>
               12 \<le> k \<and> k \<le> 29 \<and> i \<le> 7 \<and> unat s \<le> 2 ^ k \<and>
               (unat s \<le> 4096 \<longrightarrow> k = 12 \<and> i = 0) \<and>
               (4096 < unat s \<longrightarrow> 12 < k \<and> unat s \<le> 2 ^ k - i * (2 ^ k div 16))"
proof -
  let ?k = "real_bits (s - 1)"
  let ?d5 = "of_nat ?k :: 8 word"
  from v have s: "4096 \<le> unat s" "unat s \<le> 2 ^ 29" by (simp_all add: isvalid_ds_nat)
  have s1: "unat (s - 1) = unat s - 1" using s by (simp add: unat_sub word_le_nat_alt)
  have "unat (s - 1) < 2 ^ 29" using s s1 by simp
  then have k29: "?k \<le> 29" by (rule real_bits_le)
  have "2 ^ 11 \<le> unat (s - 1)" using s s1 by simp
  then have k12: "12 \<le> ?k" using real_bits_loop_gt[of 11 "s - 1" 0] by (simp add: real_bits_def)
  have ud5: "unat ?d5 = ?k" using k29 by (simp add: unat_of_nat)
  have sle: "unat s \<le> 2 ^ ?k"
  proof (rule ccontr)
    assume "\<not> unat s \<le> 2 ^ ?k"
    then have "2 ^ ?k \<le> unat (s - 1)" using s1 by simp
    from real_bits_loop_gt[OF this, of 0] show False by (simp add: real_bits_def)
  qed
  show ?thesis
  proof (cases "unat s \<le> 4096")
    case True
    then have "unat s = 4096" using s by simp
    then have "unat (s - 1) = 4095" using s1 by simp
    then have "2 ^ 11 \<le> unat (s - 1)" "unat (s - 1) < 2 ^ Suc 11" by simp_all
    then have k: "?k = 12" using real_bits_eq[of 11 "s - 1"] by simp
    have "\<not> s > min_dictionary_size"
      using True by (simp add: word_less_nat_alt min_dictionary_size_def min_dictionary_bits_def)
    then have "snd (Lh_set_dictionary_size data s) ! 5 = ?d5"
      using v len by (simp add: Lh_set_dictionary_size_def Let_def)
    then show ?thesis using True k ud5 by (intro exI[of _ 12] exI[of _ 0]) simp
  next
    case False
    then have big: "s > min_dictionary_size"
      by (simp add: word_less_nat_alt min_dictionary_size_def min_dictionary_bits_def)
    have "2 ^ 12 \<le> unat (s - 1)" using False s1 by simp
    then have k13: "12 < ?k" using real_bits_loop_gt[of 12 "s - 1" 0] by (simp add: real_bits_def)
    let ?base = "push_bit (unat ?d5) (1 :: 32 word)"
    let ?fr = "?base div 16"
    have klt: "?k < 32" using k29 by simp
    have ub: "unat ?base = 2 ^ ?k" by (simp only: ud5 unat_push_bit_1[OF klt])
    have ufr: "unat ?fr = 2 ^ ?k div 16" by (simp only: unat_div ub) simp
    obtain i where i: "i \<le> 7"
      "Lh_set_dictionary_size_loop 7 ?base ?fr s ?d5 = (if i = 0 then ?d5 else ?d5 OR push_bit 5 (of_nat i))"
      "0 < i \<longrightarrow> s \<le> ?base - of_nat i * ?fr"
      using Lh_set_dictionary_size_loop_result[of 7 ?base ?fr s ?d5] by blast
    have byte: "snd (Lh_set_dictionary_size data s) ! 5 =
                  (if i = 0 then ?d5 else ?d5 OR push_bit 5 (of_nat i))"
      using v len big i(2) by (simp add: Lh_set_dictionary_size_def Let_def)
    have ub5: "unat (if i = 0 then ?d5 else ?d5 OR push_bit 5 (of_nat i)) = ?k + 32 * i"
      using unat_coded_byte[of ?d5 i] klt i(1) by (simp only: ud5)
    have ge: "unat s \<le> 2 ^ ?k - i * (2 ^ ?k div 16)"
    proof (cases "i = 0")
      case True
      then show ?thesis using sle by simp
    next
      case False
      then have w: "s \<le> ?base - of_nat i * ?fr" using i(3) by simp
      have ui: "unat (of_nat i :: 32 word) = i" using i(1) by (simp add: unat_of_nat)
      have "i * (2 ^ ?k div 16) \<le> 7 * (2 ^ ?k div 16)" using i(1) by simp
      also have "\<dots> \<le> 16 * (2 ^ ?k div 16)" by simp
      also have "\<dots> \<le> 2 ^ ?k" by simp
      finally have ple: "i * (2 ^ ?k div 16) \<le> 2 ^ ?k" .
      have "(2::nat) ^ ?k < 2 ^ 32" using klt by (rule pow2_lt_32)
      then have "unat (of_nat i :: 32 word) * unat ?fr < 2 ^ LENGTH(32)"
        using ple by (simp only: ui ufr len32)
      then have "unat (of_nat i * ?fr) = unat (of_nat i :: 32 word) * unat ?fr"
        by (rule unat_mult_lem[THEN iffD1])
      then have prod: "unat (of_nat i * ?fr) = i * (2 ^ ?k div 16)" by (simp only: ui ufr)
      have "of_nat i * ?fr \<le> ?base" using ple by (simp only: word_le_nat_alt prod ub)
      then have "unat (?base - of_nat i * ?fr) = 2 ^ ?k - i * (2 ^ ?k div 16)"
        by (simp only: unat_sub prod ub)
      then show ?thesis using w by (simp only: word_le_nat_alt)
    qed
    show ?thesis
      using False k13 k12 k29 i(1) sle ge byte ub5
      by (intro exI[of _ ?k] exI[of _ i]) simp
  qed
qed


lemma Lh_get_after_set:
  assumes v: "isvalid_ds s" and len: "5 < length data"
  shows "unat s \<le> unat (Lh_get_dictionary_size (snd (Lh_set_dictionary_size data s))) \<and>
         unat (Lh_get_dictionary_size (snd (Lh_set_dictionary_size data s))) \<le> 2 ^ 29 \<and>
         (unat s \<le> 4096 \<longrightarrow> Lh_get_dictionary_size (snd (Lh_set_dictionary_size data s)) = 4096)"
proof -
  let ?h = "snd (Lh_set_dictionary_size data s)"
  from v have s: "4096 \<le> unat s" by (simp add: isvalid_ds_nat)
  obtain k i where ki: "unat (?h ! 5) = k + 32 * i" "12 \<le> k" "k \<le> 29" "i \<le> 7"
      "unat s \<le> 2 ^ k" "unat s \<le> 4096 \<longrightarrow> k = 12 \<and> i = 0"
      "4096 < unat s \<longrightarrow> 12 < k \<and> unat s \<le> 2 ^ k - i * (2 ^ k div 16)"
    using Lh_set_dictionary_size_byte[OF v len] by blast
  have m: "(k + 32 * i) mod 32 = k" "(k + 32 * i) div 32 = i" using ki(3) by simp_all
  have g: "unat (Lh_get_dictionary_size ?h) =
             (if (2::nat) ^ k \<le> 4096 then 2 ^ k else 2 ^ k - i * (2 ^ k div 16))"
    by (simp only: Lh_get_dictionary_size_nat ki(1) Let_def m)
  have k29: "(2::nat) ^ k \<le> 2 ^ 29" using ki(3) by (rule power_increasing) simp
  show ?thesis
  proof (cases "unat s \<le> 4096")
    case True
    then have "k = 12" "i = 0" using ki(6) by simp_all
    then have "unat (Lh_get_dictionary_size ?h) = 4096" using g by simp
    then have "Lh_get_dictionary_size ?h = 4096"
      by (simp add: word_eq_iff_unsigned[where ?'a = nat])
    then show ?thesis using True by simp
  next
    case False
    then have k: "12 < k" and ge: "unat s \<le> 2 ^ k - i * (2 ^ k div 16)" using ki(7) by simp_all
    have "(2::nat) ^ 12 < 2 ^ k" using k by (rule power_strict_increasing) simp
    then have "\<not> (2::nat) ^ k \<le> 4096" by simp
    then have "unat (Lh_get_dictionary_size ?h) = 2 ^ k - i * (2 ^ k div 16)" using g by simp
    then show ?thesis using False ge k29 by simp
  qed
qed

lemma word32_bit31_set:
  fixes w :: "32 word"
  assumes "\<not> w < 0x80000000"
  shows "bit w 31"
proof -
  have a: "2 ^ 31 \<le> unat w" using assms by (simp add: word_less_nat_alt not_less)
  have b: "unat w < 2 ^ 32" using unsigned_less[of w, where 'a = nat] by simp
  have "unat w div 2 ^ 31 = 1" using a b by (intro div_nat_eqI) simp_all
  then have "bit (unat w) 31" unfolding bit_iff_odd by simp
  then show ?thesis by (simp add: bit_unsigned_iff)
qed

lemma sint_small:
  fixes w :: "32 word"
  assumes "w < 0x80000000"
  shows "sint w = uint w"
proof -
  have nb: "\<not> bit w 31" using assms by (rule word32_bit31)
  have "uint w < 2 ^ 31" using assms by (simp add: word_less_def)
  then have "take_bit 31 (uint w) = uint w" by (simp add: take_bit_int_eq_self)
  then show ?thesis
    using nb by (simp add: sint_uint signed_take_bit_eq_if_positive bit_uint_iff)
qed

lemma isvalid_ds_sint:
  "isvalid_ds s = (4096 \<le> sint s \<and> sint s \<le> 2 ^ 29)"
proof (cases "s < 0x80000000")
  case True
  then have "sint s = uint s" by (rule sint_small)
  then show ?thesis
    by (simp add: isvalid_ds_def min_dictionary_size_def max_dictionary_size_def
        min_dictionary_bits_def max_dictionary_bits_def word_le_def)
next
  case False
  then have "bit s 31" by (rule word32_bit31_set)
  then have "sint s < 0" using bit_last_iff[of s] by simp
  moreover have "\<not> isvalid_ds s"
    using False by (simp add: isvalid_ds_def max_dictionary_size_def max_dictionary_bits_def
        word_le_nat_alt word_less_nat_alt)
  ultimately show ?thesis by simp
qed

section \<open>Opening an encoder\<close>

lemma size_overflow_test:
  fixes x :: "32 word"
  shows "((ucast x :: 64 word) * 4 \<le> ucast x) = (x = 0)"
proof -
  let ?x = "ucast x :: 64 word"
  have lt: "unat x < 2 ^ 32" using unsigned_less[of x, where 'a = nat] by simp
  have u: "unat ?x = unat x" using lt by (simp add: unsigned_ucast_eq take_bit_eq_mod)
  have "unat ?x * unat (4 :: 64 word) < 2 ^ LENGTH(64)" using lt by (simp add: u)
  then have "unat (?x * 4) = unat ?x * unat (4 :: 64 word)" by (rule unat_mult_lem[THEN iffD1])
  then have m: "unat (?x * 4) = unat x * 4" by (simp add: u)
  have "(?x * 4 \<le> ?x) = (unat x * 4 \<le> unat x)" by (simp only: word_le_nat_alt m u)
  also have "\<dots> = (unat x = 0)" by auto
  also have "\<dots> = (x = 0)" by (simp add: unat_eq_zero)
  finally show ?thesis .
qed

lemma fst_Mb_init:
  "fst (Mb_init mem_ok bs ds as df npp paf) =
     (mem_ok \<and> Mb_key4_size ds + word_of_int npp + word_of_int (paf * (ds + 1)) \<noteq> 0)"
  unfolding Mb_init_def Let_def fst_conv size_overflow_test ..

lemma fst_Cb_init: "fst (Cb_init mem_ok n) = (n + 1 > 1 \<and> mem_ok)"
  unfolding Cb_init_def Let_def fst_conv ..

lemma fst_Re_init: "fst (Re_init mem_ok ds mfb) = (65536 + mfb + 1 > 1 \<and> mem_ok)"
proof -
  obtain ok cb where c: "Cb_init mem_ok (65536 + mfb) = (ok, cb)" by (cases "Cb_init mem_ok (65536 + mfb)")
  then have "ok = (65536 + mfb + 1 > 1 \<and> mem_ok)" using fst_Cb_init[of mem_ok "65536 + mfb"] by simp
  then show ?thesis by (simp add: Re_init_def c Let_def)
qed


lemma Mb_key4_size_bounds:
  "2 ^ 15 \<le> unat (Mb_key4_size ds) \<and> unat (Mb_key4_size ds) \<le> 2 ^ 30"
proof -
  let ?e = "max 16 (real_bits (word_of_int (ds - 1)) - 2)"
  have e: "16 \<le> ?e" "?e \<le> 30" using real_bits_le_32[of "word_of_int (ds - 1)"] by simp_all
  then have "?e < 32" by simp
  then have u: "unat (push_bit ?e (1 :: 32 word)) = 2 ^ ?e" by (rule unat_push_bit_1)
  have lo: "(2::nat) ^ 16 \<le> 2 ^ ?e" using e(1) by (rule power_increasing) simp
  have hi: "(2::nat) ^ ?e \<le> 2 ^ 30" using e(2) by (rule power_increasing) simp
  have h: "unat (drop_bit 1 (push_bit ?e (1 :: 32 word))) = 2 ^ ?e div 2"
    by (simp only: drop_bit_eq_div unat_div u) simp
  have "2 ^ 15 \<le> (2::nat) ^ ?e div 2" using lo by simp
  moreover have "(2::nat) ^ ?e div 2 \<le> 2 ^ 30" using hi by simp
  ultimately show ?thesis
    using lo hi by (simp only: Mb_key4_size_def Let_def u h split: if_split) simp
qed

lemma unat_word_of_int_32:
  assumes "0 \<le> x" and "x < 2 ^ 32"
  shows "unat (word_of_int x :: 32 word) = nat x"
proof -
  have "word_of_int x = (of_nat (nat x) :: 32 word)" using assms(1) by simp
  moreover have "nat x < 2 ^ 32" using assms by simp
  ultimately show ?thesis by (simp only: unat_of_nat len32) simp
qed

lemma Mb_size_nonzero:
  assumes "0 \<le> npp" "npp \<le> 2 ^ 17" "0 \<le> p" "p \<le> 2 ^ 30 + 2"
  shows "Mb_key4_size ds + word_of_int npp + word_of_int p \<noteq> 0"
proof -
  let ?a = "Mb_key4_size ds"
  have a: "2 ^ 15 \<le> unat ?a" "unat ?a \<le> 2 ^ 30" using Mb_key4_size_bounds[of ds] by simp_all
  have b: "unat (word_of_int npp :: 32 word) = nat npp"
    using assms(1,2) by (intro unat_word_of_int_32) simp_all
  have c: "unat (word_of_int p :: 32 word) = nat p"
    using assms(3,4) by (intro unat_word_of_int_32) simp_all
  have "unat ?a + unat (word_of_int npp :: 32 word) < 2 ^ LENGTH(32)"
    using a assms(1,2) by (simp only: b len32) simp
  then have ab: "unat (?a + word_of_int npp) = unat ?a + nat npp"
    using unat_add_lem[THEN iffD1, of ?a "word_of_int npp"] by (simp only: b)
  have "unat (?a + word_of_int npp) + unat (word_of_int p :: 32 word) < 2 ^ LENGTH(32)"
    using a assms by (simp only: ab c len32) simp
  then have "unat (?a + word_of_int npp + word_of_int p) = unat ?a + nat npp + nat p"
    using unat_add_lem[THEN iffD1, of "?a + word_of_int npp" "word_of_int p"] by (simp only: ab c)
  then have "0 < unat (?a + word_of_int npp + word_of_int p)" using a(1) by simp
  then show ?thesis by (simp add: unat_gt_0)
qed


lemma mb_dictionary_size_Mb_init:
  "mb_dictionary_size (snd (Mb_init mem_ok bs ds as df npp paf)) = ds"
  by (simp add: Mb_init_def Let_def)

lemma fst_LZeb_init:
  "fst (LZeb_init mem_ok bs ds as df npp paf mfb msz) =
     (fst (Mb_init mem_ok bs ds as df npp paf) \<and> fst (Re_init mem_ok (word_of_int ds) mfb))"
proof -
  obtain ok1 mb where m: "Mb_init mem_ok bs ds as df npp paf = (ok1, mb)"
    by (cases "Mb_init mem_ok bs ds as df npp paf")
  have d: "mb_dictionary_size mb = ds" using mb_dictionary_size_Mb_init[of mem_ok bs ds as df npp paf] m by simp
  obtain ok2 renc where r: "Re_init mem_ok (word_of_int ds) mfb = (ok2, renc)"
    by (cases "Re_init mem_ok (word_of_int ds) mfb")
  show ?thesis by (simp add: LZeb_init_def m d r Let_def)
qed

lemma fst_FLZe_init: "fst (FLZe_init mem_ok msz) = mem_ok"
proof -
  have nz: "Mb_key4_size 65536 + word_of_int 0 + word_of_int (1 * (65536 + 1)) \<noteq> 0"
    by (rule Mb_size_nonzero) simp_all
  have "fst (LZeb_init mem_ok 0 65536 (int max_match_len) 16 0 1 (of_nat max_marker_size) msz) = mem_ok"
    using nz by (simp only: fst_LZeb_init fst_Mb_init fst_Re_init)
                (simp add: max_marker_size_def)
  then show ?thesis by (simp add: FLZe_init_def Let_def case_prod_beta)
qed

lemma fst_LZe_init:
  assumes "4096 \<le> D" and "D \<le> 2 ^ 29"
  shows "fst (LZe_init mem_ok D len_limit msz) = mem_ok"
proof -
  have nz: "Mb_key4_size D + word_of_int (int num_prev_positions2 + int num_prev_positions3)
              + word_of_int (2 * (D + 1)) \<noteq> 0"
    using assms by (intro Mb_size_nonzero) (simp_all add: num_prev_positions2_def num_prev_positions3_def)
  have "fst (LZeb_init mem_ok (int max_num_trials) D (int max_num_trials + 2 * int max_match_len + 1) 2
               (int num_prev_positions2 + int num_prev_positions3) 2 (2 * of_nat max_num_trials) msz)
          = mem_ok"
    using nz by (simp only: fst_LZeb_init fst_Mb_init fst_Re_init)
                (simp add: max_num_trials_def)
  then show ?thesis by (simp add: LZe_init_def Let_def case_prod_beta)
qed


lemma open_argument_test:
  "(\<not> fst (Lh_set_dictionary_size hdr ds) \<or> mll <s of_nat min_match_len_limit \<or>
     of_nat max_match_len <s mll \<or> msz < ucast min_dictionary_size)
   = (\<not> spec_valid_args ds mll msz)"
proof -
  have a: "(mll <s of_nat min_match_len_limit) = (sint mll < 5)"
    by (simp add: word_sless_alt min_match_len_limit_def)
  have b: "(of_nat max_match_len <s mll) = (273 < sint mll)"
    by (simp add: word_sless_alt max_match_len_def min_match_len_def max_len_symbols_def
        len_low_symbols_def len_mid_symbols_def len_high_symbols_def len_low_bits_def
        len_mid_bits_def len_high_bits_def)
  have c: "(msz < ucast min_dictionary_size) = (unat msz < 4096)"
    by (simp add: min_dictionary_size_def min_dictionary_bits_def word_less_nat_alt)
  show ?thesis
    unfolding fst_Lh_set_dictionary_size isvalid_ds_sint a b c spec_valid_args_def
    by auto
qed

lemma sint_small_bounds:
  fixes w :: "32 word"
  assumes "a \<le> unat w" and "unat w \<le> b" and "b < 2 ^ 31"
  shows "int a \<le> sint w \<and> sint w \<le> int b"
proof -
  have "unat w < 2 ^ 31" using assms(2,3) by simp
  then have "w < 0x80000000" by (simp add: word_less_nat_alt)
  then have "sint w = uint w" by (rule sint_small)
  also have "\<dots> = int (unat w)" by (rule uint_nat)
  finally have e: "sint w = int (unat w)" .
  show ?thesis by (simp only: e of_nat_le_iff assms simp_thms)
qed

lemma open_dictionary_size:
  assumes "isvalid_ds ds"
  shows "4096 \<le> sint (Lh_get_dictionary_size (snd (Lh_set_dictionary_size (replicate 6 0) ds))) \<and>
         sint (Lh_get_dictionary_size (snd (Lh_set_dictionary_size (replicate 6 0) ds))) \<le> 2 ^ 29"
proof -
  let ?d = "Lh_get_dictionary_size (snd (Lh_set_dictionary_size (replicate 6 0) ds))"
  have len: "5 < length (replicate 6 (0 :: 8 word))" by simp
  have g: "unat ds \<le> unat ?d" "unat ?d \<le> 2 ^ 29"
    using Lh_get_after_set[OF assms len] by simp_all
  have lo: "4096 \<le> unat ?d" using g(1) assms by (simp add: isvalid_ds_nat)
  have "int 4096 \<le> sint ?d \<and> sint ?d \<le> int (2 ^ 29)"
    using lo g(2) by (rule sint_small_bounds) simp
  then show ?thesis by simp
qed

text \<open>
  Claim C6. \<^verbatim>\<open>LZ_compress_open\<close> sets the error code \<^verbatim>\<open>LZ_bad_argument\<close> exactly when
  \<^verbatim>\<open>dictionary_size\<close> is outside 4096 .. \<open>1 << 29\<close>, or \<^verbatim>\<open>match_len_limit\<close> is outside
  5 .. 273, or \<^verbatim>\<open>member_size\<close> is below 4096. For valid arguments the fast encoder is the
  one allocated if and only if \<^verbatim>\<open>dictionary_size == 65535\<close> and \<^verbatim>\<open>match_len_limit == 16\<close>,
  and the optimal encoder otherwise (when the allocations succeed; when they fail the
  error code is \<^verbatim>\<open>LZ_mem_error\<close> and neither is kept).
\<close>

theorem compress_open_arguments:
  "case LZ_compress_open True mem_ok dictionary_size match_len_limit member_size of
     None \<Rightarrow> False
   | Some e \<Rightarrow>
       (LZ_compress_errno e = LZ_bad_argument
          \<longleftrightarrow> \<not> spec_valid_args dictionary_size match_len_limit member_size) \<and>
       (spec_valid_args dictionary_size match_len_limit member_size \<and> mem_ok \<longrightarrow>
          LZ_compress_errno e = LZ_ok \<and>
          (enc_flz_encoder e \<noteq> None \<longleftrightarrow> dictionary_size = 65535 \<and> match_len_limit = 16) \<and>
          (enc_lz_encoder e \<noteq> None \<longleftrightarrow> \<not> (dictionary_size = 65535 \<and> match_len_limit = 16))) \<and>
       (spec_valid_args dictionary_size match_len_limit member_size \<and> \<not> mem_ok \<longrightarrow>
          LZ_compress_errno e = LZ_mem_error \<and> enc_flz_encoder e = None \<and>
          enc_lz_encoder e = None)"
proof -
  let ?hdr = "replicate 6 (0 :: 8 word)"
  obtain ok header where h: "Lh_set_dictionary_size ?hdr dictionary_size = (ok, header)"
    by (cases "Lh_set_dictionary_size ?hdr dictionary_size")
  have t: "(\<not> ok \<or> match_len_limit <s of_nat min_match_len_limit \<or>
            of_nat max_match_len <s match_len_limit \<or> member_size < ucast min_dictionary_size)
           = (\<not> spec_valid_args dictionary_size match_len_limit member_size)"
    using open_argument_test[of ?hdr dictionary_size match_len_limit member_size] h by simp
  have open_eq:
    "LZ_compress_open True mem_ok dictionary_size match_len_limit member_size =
       (if \<not> spec_valid_args dictionary_size match_len_limit member_size
        then Some (LZ_Encoder_init\<lparr> enc_lz_errno := LZ_bad_argument, enc_fatal := True \<rparr>)
        else if dictionary_size = 65535 \<and> match_len_limit = 16
        then (case FLZe_init mem_ok member_size of
                (True, fe) \<Rightarrow> Some (LZ_Encoder_init\<lparr> enc_flz_encoder := Some fe \<rparr>)
              | (False, fe) \<Rightarrow>
                  Some (LZ_Encoder_init\<lparr> enc_lz_errno := LZ_mem_error, enc_fatal := True \<rparr>))
        else (case LZe_init mem_ok (sint (Lh_get_dictionary_size header)) (sint match_len_limit)
                     member_size of
                (True, le) \<Rightarrow> Some (LZ_Encoder_init\<lparr> enc_lz_encoder := Some le \<rparr>)
              | (False, le) \<Rightarrow>
                  Some (LZ_Encoder_init\<lparr> enc_lz_errno := LZ_mem_error, enc_fatal := True \<rparr>)))"
    unfolding LZ_compress_open_def h Let_def prod.case t by simp
  show ?thesis
  proof (cases "spec_valid_args dictionary_size match_len_limit member_size")
    case False
    have r: "LZ_compress_open True mem_ok dictionary_size match_len_limit member_size =
               Some (LZ_Encoder_init\<lparr> enc_lz_errno := LZ_bad_argument, enc_fatal := True \<rparr>)"
      by (subst open_eq) (simp only: False not_False_eq_True if_True)
    show ?thesis
      unfolding r using False by (simp add: LZ_compress_errno_def)
  next
    case True
    then have v: "isvalid_ds dictionary_size" by (simp add: spec_valid_args_def isvalid_ds_sint)
    show ?thesis
    proof (cases "dictionary_size = 65535 \<and> match_len_limit = 16")
      case fast: True
      obtain fok fe where f: "FLZe_init mem_ok member_size = (fok, fe)"
        by (cases "FLZe_init mem_ok member_size")
      have fok: "fok = mem_ok" using fst_FLZe_init[of mem_ok member_size] f by simp
      have r: "LZ_compress_open True mem_ok dictionary_size match_len_limit member_size =
                 (if mem_ok then Some (LZ_Encoder_init\<lparr> enc_flz_encoder := Some fe \<rparr>)
                  else Some (LZ_Encoder_init\<lparr> enc_lz_errno := LZ_mem_error, enc_fatal := True \<rparr>))"
        by (subst open_eq)
           (simp only: True fast True[simplified fast] not_True_eq_False if_False if_True f fok
              prod.case bool.case_eq_if simp_thms)
      show ?thesis
        unfolding r using fast True
        by (cases mem_ok) (simp_all add: LZ_compress_errno_def LZ_Encoder_init_def)
    next
      case opt: False
      let ?D = "sint (Lh_get_dictionary_size header)"
      have "header = snd (Lh_set_dictionary_size ?hdr dictionary_size)" using h by simp
      then have D: "4096 \<le> ?D" "?D \<le> 2 ^ 29" using open_dictionary_size[OF v] by simp_all
      obtain lok le where l: "LZe_init mem_ok ?D (sint match_len_limit) member_size = (lok, le)"
        by (cases "LZe_init mem_ok ?D (sint match_len_limit) member_size")
      have lok: "lok = mem_ok"
        using fst_LZe_init[OF D, of mem_ok "sint match_len_limit" member_size] l by simp
      have r: "LZ_compress_open True mem_ok dictionary_size match_len_limit member_size =
                 (if mem_ok then Some (LZ_Encoder_init\<lparr> enc_lz_encoder := Some le \<rparr>)
                  else Some (LZ_Encoder_init\<lparr> enc_lz_errno := LZ_mem_error, enc_fatal := True \<rparr>))"
        by (subst open_eq)
           (simp only: True opt not_True_eq_False if_False if_True l lok prod.case
              bool.case_eq_if simp_thms)
      show ?thesis
        unfolding r using opt True
        by (cases mem_ok) (simp_all add: LZ_compress_errno_def LZ_Encoder_init_def)
    qed
  qed
qed

theorem compress_open_arguments_witness:
  "spec_valid_args 65535 16 4096 \<and>
   (case LZ_compress_open True True 65535 16 4096 of
      None \<Rightarrow> False
    | Some e \<Rightarrow> LZ_compress_errno e = LZ_ok \<and> enc_flz_encoder e \<noteq> None \<and>
                enc_lz_encoder e = None) \<and>
   (case LZ_compress_open True True 65536 16 4096 of
      None \<Rightarrow> False
    | Some e \<Rightarrow> LZ_compress_errno e = LZ_ok \<and> enc_flz_encoder e = None \<and>
                enc_lz_encoder e \<noteq> None) \<and>
   (case LZ_compress_open True True 4095 16 4096 of
      None \<Rightarrow> False
    | Some e \<Rightarrow> LZ_compress_errno e = LZ_bad_argument)"
proof -
  have v1: "spec_valid_args 65535 16 4096" by (simp add: spec_valid_args_def)
  have v2: "spec_valid_args 65536 16 4096" by (simp add: spec_valid_args_def)
  have v3: "\<not> spec_valid_args 4095 16 4096" by (simp add: spec_valid_args_def)
  show ?thesis
    using compress_open_arguments[where mem_ok = True and dictionary_size = 65535
            and match_len_limit = 16 and member_size = 4096]
          compress_open_arguments[where mem_ok = True and dictionary_size = 65536
            and match_len_limit = 16 and member_size = 4096]
          compress_open_arguments[where mem_ok = True and dictionary_size = 4095
            and match_len_limit = 16 and member_size = 4096] v1 v2 v3
    by (auto split: option.splits)
qed

section \<open>Finishing before any byte is encoded\<close>






subsection \<open>The encoder right after \<^verbatim>\<open>LZ_compress_open\<close>\<close>












subsection \<open>Writing before anything is encoded\<close>



subsection \<open>The size that the rewritten header advertises\<close>




subsection \<open>Open, write, finish\<close>






section \<open>The range stays normalised\<close>

lemma unat_push_bit_8:
  fixes r :: "32 word"
  assumes "r \<le> 0x00FFFFFF"
  shows "unat (push_bit 8 r) = 256 * unat r"
proof -
  have "unat r \<le> 16777215" using assms by (simp add: word_le_nat_alt)
  then have "unat (256 :: 32 word) * unat r < 2 ^ LENGTH(32)" by simp
  then have "unat (256 * r) = unat (256 :: 32 word) * unat r"
    by (rule unat_mult_lem[THEN iffD1])
  then show ?thesis by (simp add: push_bit_eq_mult mult.commute)
qed

lemma shift_normalises:
  fixes r :: "32 word"
  assumes "65536 \<le> unat r"
  shows "0x00FFFFFF < (if r \<le> 0x00FFFFFF then push_bit 8 r else r)"
proof (cases "r \<le> 0x00FFFFFF")
  case True
  have "16777215 < 256 * unat r" using assms by simp
  then show ?thesis using True by (simp add: word_less_nat_alt unat_push_bit_8[OF True])
next
  case False
  then show ?thesis by (simp add: not_le)
qed

lemma range_after_bit:
  fixes rng p :: "32 word"
  assumes p: "31 \<le> unat p" "unat p \<le> 2017" and r: "0x00FFFFFF < rng"
  shows "65536 \<le> unat (drop_bit 11 rng * p)" and "65536 \<le> unat (rng - drop_bit 11 rng * p)"
proof -
  have r1: "2048 \<le> rng" using r by (simp add: word_le_nat_alt word_less_nat_alt)
  have "16777216 \<le> unat rng" using r by (simp add: word_less_nat_alt)
  then have k: "8192 \<le> unat rng div 2048" by simp
  have "8192 * 31 \<le> (unat rng div 2048) * unat p" using k p(1) by (rule mult_le_mono)
  then show "65536 \<le> unat (drop_bit 11 rng * p)"
    unfolding bound_facts(1)[OF p r1] by simp
  have "31 * 8192 \<le> 31 * (unat rng div 2048)" using k by simp
  then show "65536 \<le> unat (rng - drop_bit 11 rng * p)"
    using bound_facts(4)[OF p r1] by simp
qed

lemma range_after_halving:
  fixes rng :: "32 word"
  assumes "0x00FFFFFF < rng"
  shows "65536 \<le> unat (drop_bit 1 rng)"
proof -
  have "16777216 \<le> unat rng" using assms by (simp add: word_less_nat_alt)
  then show ?thesis by (simp add: drop_bit_eq_div unat_div)
qed

subsection \<open>Encoder\<close>

lemma re_range_Re_shift_low: "re_range (Re_shift_low renc) = re_range renc"
  by (simp add: Re_shift_low_def Let_def)

lemma re_range_Re_encode_bit:
  "re_range (fst (Re_encode_bit renc p b)) =
     (let bound = drop_bit 11 (re_range renc) * p;
          r = (if b then re_range renc - bound else bound)
      in if r \<le> 0x00FFFFFF then push_bit 8 r else r)"
  by (simp add: Re_encode_bit_def Let_def bit_model_total_bits_def re_range_Re_shift_low)

lemma re_range_Re_encode_iter:
  "re_range (Re_encode_iter renc b) =
     (let r = drop_bit 1 (re_range renc) in if r \<le> 0x00FFFFFF then push_bit 8 r else r)"
  by (simp add: Re_encode_iter_def Let_def re_range_Re_shift_low)

lemma Re_reachable_range:
  assumes "renc \<in> Re_reachable"
  shows "0x00FFFFFF < re_range renc"
  using assms
proof (induction rule: Re_reachable.induct)
  case (Re_reachable_init dictionary_size min_free_bytes renc)
  then have "renc = Re_reset (snd (Re_init True dictionary_size min_free_bytes)) dictionary_size
             \<or> re_range renc = 0xFFFFFFFF"
    by (auto simp: Re_init_def Let_def Re_reset_def split: prod.splits if_splits)
  then show ?case by (auto simp: Re_reset_def Let_def)
next
  case (Re_reachable_reset renc dictionary_size)
  show ?case by (simp add: Re_reset_def Let_def)
next
  case (Re_reachable_flush renc)
  show ?case by (simp add: Re_flush_def)
next
  case (Re_reachable_read renc n)
  then show ?case by (simp add: Re_read_data_def Let_def split: prod.splits)
next
  case (Re_reachable_bit renc p b)
  have pb: "31 \<le> unat p" "unat p \<le> 2017" using Bm_reachable_bounds[OF Re_reachable_bit(2)] by simp_all
  note a = range_after_bit[OF pb Re_reachable_bit.IH]
  show ?case
  proof (cases b)
    case True
    show ?thesis
      unfolding re_range_Re_encode_bit Let_def using True shift_normalises[OF a(2)]
      by (simp only: if_True)
  next
    case False
    show ?thesis
      unfolding re_range_Re_encode_bit Let_def using False shift_normalises[OF a(1)]
      by (simp only: if_False)
  qed
next
  case (Re_reachable_direct renc b)
  show ?case
    unfolding re_range_Re_encode_iter Let_def
    by (rule shift_normalises[OF range_after_halving[OF Re_reachable_direct.IH]])
next
  case (Re_reachable_header renc h buf)
  then show ?case by simp
qed

subsection \<open>Decoder\<close>

lemma rd_range_Rd_get_byte: "rd_range (snd (Rd_get_byte rdec)) = rd_range rdec"
  by (simp add: Rd_get_byte_def Let_def split: prod.splits)

lemma rd_range_Rd_normalize:
  "rd_range (Rd_normalize rdec) =
     (if rd_range rdec \<le> 0x00FFFFFF then push_bit 8 (rd_range rdec) else rd_range rdec)"
proof -
  have "rd_range (snd (Rd_get_byte (rdec\<lparr> rd_range := push_bit 8 (rd_range rdec) \<rparr>)))
          = push_bit 8 (rd_range rdec)"
    by (simp add: rd_range_Rd_get_byte)
  then show ?thesis by (simp add: Rd_normalize_def Let_def case_prod_beta)
qed

lemma rd_range_Rd_try_reload_loop: "rd_range (Rd_try_reload_loop n rdec) = rd_range rdec"
proof (induction n arbitrary: rdec)
  case 0
  show ?case by simp
next
  case (Suc n)
  have "rd_range (snd (Rd_get_byte rdec)) = rd_range rdec" by (rule rd_range_Rd_get_byte)
  then show ?case by (simp add: Suc.IH case_prod_beta Let_def)
qed

lemma rd_range_Rd_try_reload:
  "rd_range (snd (Rd_try_reload rdec)) = rd_range rdec \<or>
   rd_range (snd (Rd_try_reload rdec)) = 0xFFFFFFFF"
  by (simp add: Rd_try_reload_def Let_def)

lemma rd_range_Rd_decode_bit:
  "rd_range (fst (snd (Rd_decode_bit rdec p))) =
     (let rng = rd_range (Rd_normalize rdec); bound = drop_bit 11 rng * p
      in if rd_code (Rd_normalize rdec) < bound then bound else rng - bound)"
  by (simp add: Rd_decode_bit_def Let_def bit_model_total_bits_def)

lemma rd_range_Rd_decode_iter:
  "rd_range (snd (Rd_decode_iter (symbol, rdec))) = drop_bit 1 (rd_range (Rd_normalize rdec))"
  by (simp add: Rd_decode_iter_def Let_def)

lemma Rd_reachable_range:
  assumes "rdec \<in> Rd_reachable"
  shows "65536 \<le> unat (rd_range rdec)"
  using assms
proof (induction rule: Rd_reachable.induct)
  case (Rd_reachable_init rdec)
  then have "rd_range rdec = 0xFFFFFFFF" by (auto simp: Rd_init_def Let_def split: prod.splits)
  then show ?case by simp
next
  case (Rd_reachable_reload rdec)
  then show ?case using rd_range_Rd_try_reload[of rdec] by auto
next
  case (Rd_reachable_normalize rdec)
  have "0x00FFFFFF < rd_range (Rd_normalize rdec)"
    unfolding rd_range_Rd_normalize by (rule shift_normalises[OF Rd_reachable_normalize.IH])
  then show ?case by (simp add: word_less_nat_alt)
next
  case (Rd_reachable_bit rdec p)
  have pb: "31 \<le> unat p" "unat p \<le> 2017" using Bm_reachable_bounds[OF Rd_reachable_bit(2)] by simp_all
  have n: "0x00FFFFFF < rd_range (Rd_normalize rdec)"
    unfolding rd_range_Rd_normalize by (rule shift_normalises[OF Rd_reachable_bit.IH])
  note a = range_after_bit[OF pb n]
  show ?case unfolding rd_range_Rd_decode_bit Let_def using a by simp
next
  case (Rd_reachable_direct rdec symbol)
  have n: "0x00FFFFFF < rd_range (Rd_normalize rdec)"
    unfolding rd_range_Rd_normalize by (rule shift_normalises[OF Rd_reachable_direct.IH])
  show ?case unfolding rd_range_Rd_decode_iter by (rule range_after_halving[OF n])
next
  case (Rd_reachable_other rdec cb mpos ase rp)
  then show ?case by simp
qed

text \<open>Claim C9. \<^verbatim>\<open>Re_encode_bit\<close> computes its bound from, and the loop of \<^verbatim>\<open>Re_encode\<close>
  halves, the range of the encoder as it enters; \<^verbatim>\<open>Rd_decode_bit\<close> and the loop of
  \<^verbatim>\<open>Rd_decode\<close> first call \<^verbatim>\<open>Rd_normalize\<close> and then compute the bound from, or halve,
  the range that it leaves. In every reachable state of the encoder the range exceeds
  \<^verbatim>\<open>0x00FFFFFF\<close>, and from every reachable state of the decoder \<^verbatim>\<open>Rd_normalize\<close> leaves
  a range that exceeds \<^verbatim>\<open>0x00FFFFFF\<close>: the range entering each decision is normalised.\<close>

theorem range_normalised_at_decisions:
  "(renc \<in> Re_reachable \<longrightarrow> 0x00FFFFFF < re_range renc) \<and>
   (rdec \<in> Rd_reachable \<longrightarrow> 0x00FFFFFF < rd_range (Rd_normalize rdec))"
proof (intro conjI impI)
  assume "renc \<in> Re_reachable"
  then show "0x00FFFFFF < re_range renc" by (rule Re_reachable_range)
next
  assume "rdec \<in> Rd_reachable"
  then have "65536 \<le> unat (rd_range rdec)" by (rule Rd_reachable_range)
  then show "0x00FFFFFF < rd_range (Rd_normalize rdec)"
    unfolding rd_range_Rd_normalize by (rule shift_normalises)
qed

theorem range_normalised_at_decisions_witness:
  "fst (Re_encode_bit (snd (Re_init True 4096 16)) Bm_init True) \<in> Re_reachable \<and>
   0x00FFFFFF < re_range (fst (Re_encode_bit (snd (Re_init True 4096 16)) Bm_init True)) \<and>
   fst (snd (Rd_decode_bit (snd (Rd_init True)) Bm_init)) \<in> Rd_reachable \<and>
   0x00FFFFFF < rd_range (Rd_normalize (fst (snd (Rd_decode_bit (snd (Rd_init True)) Bm_init))))"
proof -
  have "fst (Re_init True 4096 16)" by (simp add: fst_Re_init)
  then have "Re_init True 4096 16 = (True, snd (Re_init True 4096 16))"
    by (cases "Re_init True 4096 16") simp
  then have "snd (Re_init True 4096 16) \<in> Re_reachable" by (rule Re_reachable_init)
  then have e: "fst (Re_encode_bit (snd (Re_init True 4096 16)) Bm_init True) \<in> Re_reachable"
    using Bm_reachable_init by (rule Re_reachable_bit)
  have "fst (Rd_init True)" by (simp add: Rd_init_def Let_def case_prod_beta fst_Cb_init rd_min_available_bytes_def)
  then have "Rd_init True = (True, snd (Rd_init True))" by (cases "Rd_init True") simp
  then have "snd (Rd_init True) \<in> Rd_reachable" by (rule Rd_reachable_init)
  then have d: "fst (snd (Rd_decode_bit (snd (Rd_init True)) Bm_init)) \<in> Rd_reachable"
    using Bm_reachable_init by (rule Rd_reachable_bit)
  show ?thesis
    using range_normalised_at_decisions[of "fst (Re_encode_bit (snd (Re_init True 4096 16)) Bm_init True)"
        "fst (snd (Rd_decode_bit (snd (Rd_init True)) Bm_init))"] e d
    by simp
qed

section \<open>Verifying the trailer\<close>









end
